theory Spec2Isabelle
  imports Main "HOL-Library.Word" "HOL-Library.Monad_Syntax"
begin

unbundle bit_operations_syntax

section \<open>Bytes, strings and big-endian integers\<close>

text \<open>
  A Go \<open>[]byte\<close> is a list of 8-bit words, a Go \<open>string\<close> an Isabelle string (both are
  byte sequences). The conversions \<open>[]byte(s)\<close> and \<open>string(b)\<close> of the source are
  the two maps below. A slice that may be \<open>nil\<close> where the source tests for it is a
  \<open>bytes option\<close>, with \<open>None\<close> for \<open>nil\<close>.
\<close>

type_synonym byte = "8 word"
type_synonym bytes = "byte list"

definition bytes_of_string :: "string \<Rightarrow> bytes" where
  "bytes_of_string s = map (\<lambda>c. of_nat (of_char c)) s"

definition string_of_bytes :: "bytes \<Rightarrow> string" where
  "string_of_bytes b = map (\<lambda>w. char_of (unat w)) b"

text \<open>\<open>encoding/binary\<close>: \<open>BigEndian.PutUint64\<close> and \<open>BigEndian.Uint64\<close>.\<close>

definition be_word :: "bytes \<Rightarrow> 'a::len word" where
  "be_word bs = foldl (\<lambda>acc b. push_bit 8 acc OR ucast b) 0 bs"

definition PutUint64 :: "64 word \<Rightarrow> bytes" where
  "PutUint64 v =
     [ucast (drop_bit 56 v), ucast (drop_bit 48 v), ucast (drop_bit 40 v), ucast (drop_bit 32 v),
      ucast (drop_bit 24 v), ucast (drop_bit 16 v), ucast (drop_bit 8 v), ucast v]"

definition Uint64 :: "bytes \<Rightarrow> 64 word" where
  "Uint64 b = be_word (take 8 b)"

section \<open>Errors\<close>

text \<open>
  The sentinel errors of the packages, the errors of the standard library the code
  tests for, and \<open>fmt.Errorf\<close> with a \<open>%w\<close> verb, kept symbolic: the format string, the
  other arguments, and the wrapped error (\<open>None\<close> when the code wraps a nil error).
  An \<open>error\<close> value of Go that may be nil is an \<open>error option\<close>.
\<close>

datatype arg = ArgBytes bytes | ArgString string | ArgInt int

datatype error =
    ErrNotFound
  | ErrStalePut
  | ErrPasswordWithoutTLS
  | ErrUnderflow
  | ErrBadMessage
  | ErrNotExist
  | EOF
  | ErrUnexpectedEOF
  | OtherError string
  | Errorf string "arg list" "error option"

fun error_Is :: "error \<Rightarrow> error \<Rightarrow> bool" where
  "error_Is (Errorf f a w) t =
     (Errorf f a w = t \<or> (case w of Some e \<Rightarrow> error_Is e t | None \<Rightarrow> False))"
| "error_Is e t = (e = t)"

definition errors_Is :: "error option \<Rightarrow> error \<Rightarrow> bool" where
  "errors_Is err target = (case err of None \<Rightarrow> False | Some e \<Rightarrow> error_Is e target)"

fun os_IsNotExist :: "error option \<Rightarrow> bool" where
  "os_IsNotExist (Some ErrNotExist) = True"
| "os_IsNotExist _ = False"

section \<open>Raw stores\<close>

text \<open>
  The \<open>Store\<close> interface, over any state \<open>'s\<close> of the backend. \<open>Get\<close> returns the pair
  \<open>(value, err)\<close> of the source.
\<close>

record 's Store =
  Store_Put :: "bytes \<Rightarrow> bytes \<Rightarrow> 's \<Rightarrow> error option \<times> 's"
  Store_Get :: "bytes \<Rightarrow> 's \<Rightarrow> bytes option \<times> error option"

subsection \<open>InMemorySTore\<close>

definition InMemoryStore_Put ::
  "bytes \<Rightarrow> bytes \<Rightarrow> (bytes \<rightharpoonup> bytes) \<Rightarrow> error option \<times> (bytes \<rightharpoonup> bytes)" where
  "InMemoryStore_Put key val m = (None, m(key \<mapsto> val))"

definition InMemoryStore_Get ::
  "bytes \<Rightarrow> (bytes \<rightharpoonup> bytes) \<Rightarrow> bytes option \<times> error option" where
  "InMemoryStore_Get key m =
     (case m key of
        None \<Rightarrow> (None, Some (Errorf ''%.40q: %w'' [ArgBytes key] (Some ErrNotFound)))
      | Some val \<Rightarrow> (Some val, None))"

definition InMemoryStore :: "(bytes \<rightharpoonup> bytes) Store" where
  "InMemoryStore = \<lparr>Store_Put = InMemoryStore_Put, Store_Get = InMemoryStore_Get\<rparr>"

subsection \<open>DiskStore\<close>

text \<open>
  The operating system is a parameter: the file operations act on a file-system state
  \<open>'f\<close>, and \<open>filepath.Join\<close> and \<open>filepath.Dir\<close> are the library's.
\<close>

record 'f OS =
  WriteFile :: "string \<Rightarrow> bytes \<Rightarrow> 'f \<Rightarrow> error option \<times> 'f"
  MkdirAll :: "string \<Rightarrow> 'f \<Rightarrow> error option \<times> 'f"
  filepath_Join :: "string list \<Rightarrow> string"
  filepath_Dir :: "string \<Rightarrow> string"

definition hexdigit :: "nat \<Rightarrow> char" where
  "hexdigit n = ''0123456789abcdef'' ! (n mod 16)"

definition hex_of_bytes :: "bytes \<Rightarrow> string" where
  "hex_of_bytes b = concat (map (\<lambda>w. [hexdigit (unat w div 16), hexdigit (unat w)]) b)"

text \<open>\<open>fmt.Sprintf("%02x", key)\<close>: the hex digits of the key, zero-padded to width 2.\<close>

definition Sprintf_02x :: "bytes \<Rightarrow> string" where
  "Sprintf_02x key = (let h = hex_of_bytes key in replicate (2 - length h) CHR ''0'' @ h)"

definition pathFor :: "'f OS \<Rightarrow> string \<Rightarrow> bytes \<Rightarrow> string" where
  "pathFor os dir key = (let hex = Sprintf_02x key in filepath_Join os [dir, take 2 hex, hex])"

definition DiskStore_Put ::
  "'f OS \<Rightarrow> string \<Rightarrow> bytes \<Rightarrow> bytes \<Rightarrow> 'f \<Rightarrow> error option \<times> 'f" where
  "DiskStore_Put os dir key val fs =
     (let p = pathFor os dir key;
          (err, fs1) = WriteFile os p val fs
      in if err \<noteq> None then (None, fs1)
         else if \<not> os_IsNotExist err
           then (Some (Errorf ''could not write %q: %w'' [ArgString p] err), fs1)
         else let (err2, fs2) = MkdirAll os (filepath_Dir os p) fs1
           in if err2 \<noteq> None
                then (Some (Errorf ''could not make dir for %q: %w'' [ArgString p] err2), fs2)
              else WriteFile os p val fs2)"

subsection \<open>BlobStoreWrapper\<close>

text \<open>The hash \<open>blake2b.Sum512\<close> is the parameter \<open>H\<close>.\<close>

definition BlobStoreWrapper_Put ::
  "(bytes \<Rightarrow> bytes) \<Rightarrow> 's Store \<Rightarrow> bytes \<Rightarrow> 's \<Rightarrow> bytes \<times> error option \<times> 's" where
  "BlobStoreWrapper_Put H delegate val s =
     (let key = H val;
          (err, s') = Store_Put delegate key val s
      in (key, err, s'))"

definition BlobStoreWrapper_Get ::
  "'s Store \<Rightarrow> bytes \<Rightarrow> 's \<Rightarrow> bytes option \<times> error option" where
  "BlobStoreWrapper_Get delegate key s = Store_Get delegate key s"

text \<open>
  The contract of a raw store that the blob store relies on: a put that reports no error
  is followed by a get of the same key that returns the value put.
\<close>

definition honours_put_get :: "'s Store \<Rightarrow> bool" where
  "honours_put_get d =
     (\<forall>k v s. case Store_Put d k v s of
                (None, s') \<Rightarrow> Store_Get d k s' = (Some v, None)
              | (Some e, s') \<Rightarrow> True)"

subsection \<open>Paired\<close>

text \<open>
  \<open>Paired.Get\<close> over the states of the fast and the slow store; it returns the pair
  \<open>(value, err)\<close> and the state of the fast store, which the propagation may change.
\<close>

definition Paired_Get ::
  "'a Store \<Rightarrow> 'b Store \<Rightarrow> bytes \<Rightarrow> 'a \<Rightarrow> 'b \<Rightarrow> (bytes option \<times> error option) \<times> 'a" where
  "Paired_Get fast slow Key fs ss =
     (let (val, err) = Store_Get fast Key fs
      in if err \<noteq> None then ((val, err), fs)
         else if \<not> errors_Is err ErrNotFound then ((val, err), fs)
         else let (val2, err2) = Store_Get slow Key ss
           in if err2 \<noteq> None then ((None, err2), fs)
              else let (ferr, fs') = Store_Put fast Key (case val2 of None \<Rightarrow> [] | Some v \<Rightarrow> v) fs
                in ((val2, None), fs'))"

section \<open>Versioned store\<close>

text \<open>
  \<open>VersionedWrapper.Put\<close> over a delegate store. The result is \<open>None\<close> when the code
  panics: \<open>curr[0:8]\<close> on a stored value shorter than 8 bytes.
\<close>

definition VersionedWrapper_Put ::
  "'s Store \<Rightarrow> 64 word \<Rightarrow> bytes \<Rightarrow> bytes \<Rightarrow> 's \<Rightarrow> (error option \<times> 's) option" where
  "VersionedWrapper_Put delegate version key val s =
     (let (curr, err) = Store_Get delegate key s
      in if err \<noteq> None \<and> \<not> errors_Is err ErrNotFound then Some (err, s)
         else case (case curr of
                      None \<Rightarrow> Some False
                    | Some c \<Rightarrow>
                        if length c < 8 then None
                        else let expectedVersion = Uint64 (take 8 c) + 1
                             in Some (version < expectedVersion)) of
                None \<Rightarrow> None
              | Some True \<Rightarrow> Some (Some ErrStalePut, s)
              | Some False \<Rightarrow> Some (Store_Put delegate key (PutUint64 version @ val) s))"

definition VersionedWrapper_Get ::
  "'s Store \<Rightarrow> bytes \<Rightarrow> 's \<Rightarrow> (64 word \<times> bytes option \<times> error option) option" where
  "VersionedWrapper_Get delegate key s =
     (let (val, err) = Store_Get delegate key s
      in if err = None then
           (case val of
              None \<Rightarrow> None
            | Some v \<Rightarrow> if length v < 8 then None else Some (Uint64 (take 8 v), Some (drop 8 v), None))
         else Some (0, val, err))"

record 'v VersionedStore =
  VersionedStore_Put :: "64 word \<Rightarrow> bytes \<Rightarrow> bytes \<Rightarrow> 'v \<Rightarrow> error option \<times> 'v"
  VersionedStore_Get :: "bytes \<Rightarrow> 'v \<Rightarrow> 64 word \<times> bytes option \<times> error option"

section \<open>The package bits\<close>

text \<open>
  Modelled from the spec: the package \<open>bits\<close> is not among the sources. The spec gives
  the layout its callers rely on: big-endian integers of fixed width, and strings and
  byte slices prefixed by their length as a \<open>u16\<close>. Each \<open>Put\<close> is the bytes written,
  each \<open>Get\<close> the value read and the rest of the slice, \<open>None\<close> on a slice too short.
\<close>

definition bits_Put8 :: "8 word \<Rightarrow> bytes" where
  "bits_Put8 v = [v]"

definition bits_Put16 :: "16 word \<Rightarrow> bytes" where
  "bits_Put16 v = [ucast (drop_bit 8 v), ucast v]"

definition bits_Put32 :: "32 word \<Rightarrow> bytes" where
  "bits_Put32 v = [ucast (drop_bit 24 v), ucast (drop_bit 16 v), ucast (drop_bit 8 v), ucast v]"

definition bits_Put64 :: "64 word \<Rightarrow> bytes" where
  "bits_Put64 v = PutUint64 v"

definition bits_Putb :: "bytes \<Rightarrow> bytes" where
  "bits_Putb b = bits_Put16 (of_nat (length b)) @ b"

definition bits_Puts :: "string \<Rightarrow> bytes" where
  "bits_Puts s = bits_Putb (bytes_of_string s)"

definition bits_Get8 :: "bytes \<Rightarrow> (8 word \<times> bytes) option" where
  "bits_Get8 b = (if length b < 1 then None else Some (be_word (take 1 b), drop 1 b))"

definition bits_Get16 :: "bytes \<Rightarrow> (16 word \<times> bytes) option" where
  "bits_Get16 b = (if length b < 2 then None else Some (be_word (take 2 b), drop 2 b))"

definition bits_Get64 :: "bytes \<Rightarrow> (64 word \<times> bytes) option" where
  "bits_Get64 b = (if length b < 8 then None else Some (be_word (take 8 b), drop 8 b))"

section \<open>Messages\<close>

type_synonym Kind = "8 word"

definition KindGet :: Kind where "KindGet = 0"
definition KindPut :: Kind where "KindPut = 1"
definition KindError :: Kind where "KindError = 2"
definition KindAuth :: Kind where "KindAuth = 3"
definition kindCount :: Kind where "kindCount = 4"

text \<open>The method \<open>STring\<close> of \<open>Kind\<close>, under the name the source gives it.\<close>

definition STring :: "Kind \<Rightarrow> string" where
  "STring k =
     (if k = KindGet then ''GET''
      else if k = KindPut then ''PUT''
      else if k = kindCount then ''Count''
      else if k = KindAuth then ''AUTH''
      else if k = KindError then ''ERROR''
      else ''UNKNOWN'')"

record Message =
  msg_kind :: Kind
  msg_tag :: "16 word"
  msg_key :: string
  msg_value :: string
  msg_version :: "64 word"

text \<open>The accessors panic (\<open>None\<close>) on a message of a kind without the field.\<close>

definition Message_Key :: "Message \<Rightarrow> string option" where
  "Message_Key m =
     (if msg_kind m = KindGet \<or> msg_kind m = KindPut then Some (msg_key m) else None)"

definition Message_Value :: "Message \<Rightarrow> string option" where
  "Message_Value m =
     (if msg_kind m = KindAuth \<or> msg_kind m = KindError \<or> msg_kind m = KindPut
      then Some (msg_value m) else None)"

definition Message_Version :: "Message \<Rightarrow> 64 word option" where
  "Message_Version m = (if msg_kind m = KindPut then Some (msg_version m) else None)"

definition NewGetMessage :: "16 word \<Rightarrow> string \<Rightarrow> Message" where
  "NewGetMessage tag key =
     \<lparr>msg_kind = KindGet, msg_tag = tag, msg_key = key, msg_value = [], msg_version = 0\<rparr>"

definition NewPutMessage :: "16 word \<Rightarrow> string \<Rightarrow> string \<Rightarrow> 64 word \<Rightarrow> Message" where
  "NewPutMessage tag key val version =
     \<lparr>msg_kind = KindPut, msg_tag = tag, msg_key = key, msg_value = val, msg_version = version\<rparr>"

definition NewErrorMessage :: "16 word \<Rightarrow> string \<Rightarrow> Message" where
  "NewErrorMessage tag message =
     \<lparr>msg_kind = KindError, msg_tag = tag, msg_key = [], msg_value = message, msg_version = 0\<rparr>"

definition NewAuthMessage :: "16 word \<Rightarrow> string \<Rightarrow> Message" where
  "NewAuthMessage tag password =
     \<lparr>msg_kind = KindAuth, msg_tag = tag, msg_key = [], msg_value = password, msg_version = 0\<rparr>"

section \<open>The message codec\<close>

text \<open>
  The encoder and the decoder keep a buffer and an offset between calls. Every buffer
  comes from \<open>make\<close>, so its capacity is its length. A result \<open>None\<close> is a panic: an
  index or a slice out of range. \<open>poke\<close> is a write of \<open>data\<close> into \<open>buf[off:]\<close>.
\<close>

definition poke :: "bytes \<Rightarrow> nat \<Rightarrow> bytes \<Rightarrow> bytes option" where
  "poke buf off data =
     (if off + length data \<le> length buf
      then Some (take off buf @ data @ drop (off + length data) buf) else None)"

record Encoder =
  enc_buf :: bytes
  enc_off :: nat

text \<open>An \<open>io.Writer\<close> over a state \<open>'w\<close>: \<open>Write\<close> returns \<open>(n, err)\<close>.\<close>

record 'w Writer =
  Write :: "bytes \<Rightarrow> 'w \<Rightarrow> (nat \<times> error option) \<times> 'w"

definition makeroom :: "Encoder \<Rightarrow> nat \<Rightarrow> Encoder" where
  "makeroom e required =
     (if length (enc_buf e) \<ge> required then e
      else e\<lparr>enc_buf := enc_buf e @ replicate (required - length (enc_buf e)) 0\<rparr>)"

definition Encoder_put :: "Encoder \<Rightarrow> bytes \<Rightarrow> Encoder option" where
  "Encoder_put e data =
     (case poke (enc_buf e) (enc_off e) data of
        None \<Rightarrow> None
      | Some b \<Rightarrow> Some (e\<lparr>enc_buf := b, enc_off := enc_off e + length data\<rparr>))"

definition Encoder_put8 :: "Encoder \<Rightarrow> 8 word \<Rightarrow> Encoder option" where
  "Encoder_put8 e v = Encoder_put e (bits_Put8 v)"

definition Encoder_put16 :: "Encoder \<Rightarrow> 16 word \<Rightarrow> Encoder option" where
  "Encoder_put16 e v = Encoder_put e (bits_Put16 v)"

definition Encoder_put64 :: "Encoder \<Rightarrow> 64 word \<Rightarrow> Encoder option" where
  "Encoder_put64 e v = Encoder_put e (bits_Put64 v)"

definition Encoder_puts :: "Encoder \<Rightarrow> string \<Rightarrow> Encoder option" where
  "Encoder_puts e v = Encoder_put e (bits_Puts v)"

text \<open>The switch of \<open>Encode\<close>: \<open>Inl ErrBadMessage\<close> is its default case.\<close>

definition Encode_body :: "Encoder \<Rightarrow> Message \<Rightarrow> (error + Encoder) option" where
  "Encode_body e m =
     (if msg_kind m = KindGet then
        do {
          e1 \<leftarrow> Encoder_puts (makeroom e (enc_off e + 2 + length (msg_key m))) (msg_key m);
          Some (Inr e1)
        }
      else if msg_kind m = KindPut then
        do {
          e1 \<leftarrow> Encoder_puts
                  (makeroom e (enc_off e + 12 + length (msg_key m) + length (msg_value m)))
                  (msg_key m);
          e2 \<leftarrow> Encoder_puts e1 (msg_value m);
          e3 \<leftarrow> Encoder_put64 e2 (msg_version m);
          Some (Inr e3)
        }
      else if msg_kind m = KindAuth \<or> msg_kind m = KindError then
        do {
          e1 \<leftarrow> Encoder_puts (makeroom e (enc_off e + 2 + length (msg_value m))) (msg_value m);
          Some (Inr e1)
        }
      else Some (Inl ErrBadMessage))"

definition Encode ::
  "'w Writer \<Rightarrow> Encoder \<Rightarrow> Message \<Rightarrow> 'w \<Rightarrow> (error option \<times> Encoder \<times> 'w) option" where
  "Encode wr e m w =
     do {
       e1 \<leftarrow> Encoder_put8 (makeroom (e\<lparr>enc_off := 0\<rparr>) 3) (msg_kind m);
       e2 \<leftarrow> Encoder_put16 e1 (msg_tag m);
       r \<leftarrow> Encode_body e2 m;
       (case r of
          Inl err \<Rightarrow> Some (Some err, e2, w)
        | Inr e3 \<Rightarrow>
            if length (enc_buf e3) < enc_off e3 then None
            else
              (case Write wr (take (enc_off e3) (enc_buf e3)) w of
                 ((n, Some err), w') \<Rightarrow> Some (Some err, e3, w')
               | ((n, None), w') \<Rightarrow>
                   if n \<noteq> enc_off e3
                   then Some (Some (Errorf ''wrote %d of %d bytes: %w''
                                      [ArgInt (int n), ArgInt (int (enc_off e3))]
                                      (Some ErrUnderflow)), e3, w')
                   else Some (None, e3, w')))
     }"

record Decoder =
  dec_buf :: bytes
  dec_off :: nat
  dec_err :: "error option"

text \<open>
  An \<open>io.Reader\<close> over a state \<open>'r\<close>, through \<open>io.ReadFull\<close>: the bytes read, at most
  as many as asked for, and the error.
\<close>

record 'r Reader =
  ReadFull :: "nat \<Rightarrow> 'r \<Rightarrow> (bytes \<times> error option) \<times> 'r"

definition Decoder_read :: "'r Reader \<Rightarrow> Decoder \<Rightarrow> 16 word \<Rightarrow> 'r \<Rightarrow> (Decoder \<times> 'r) option" where
  "Decoder_read rd d n r =
     (let d1 = (if int (length (dec_buf d)) - int (dec_off d) < int (unat n)
                then d\<lparr>dec_buf := dec_buf d @
                                     replicate (dec_off d + unat n - length (dec_buf d)) 0\<rparr>
                else d)
      in if dec_err d1 \<noteq> None then Some (d1, r)
         else if length (dec_buf d1) < unat n then None
         else
           (case ReadFull rd (unat n) r of
              ((data, err), r') \<Rightarrow>
                Some (d1\<lparr>dec_off := 0,
                         dec_buf := data @ drop (length data) (dec_buf d1),
                         dec_err :=
                           (if err = None \<and> (of_nat (length data) :: 16 word) \<noteq> n
                            then Some (Errorf ''read %d of %d bytes: %w''
                                         [ArgInt (int (length data)), ArgInt (int (unat n))]
                                         (Some ErrUnderflow))
                            else err)\<rparr>, r')))"

definition Decoder_get8 :: "Decoder \<Rightarrow> (8 word \<times> Decoder) option" where
  "Decoder_get8 d =
     (if length (dec_buf d) < dec_off d then None
      else do {
        (v, rest) \<leftarrow> bits_Get8 (drop (dec_off d) (dec_buf d));
        Some (v, d\<lparr>dec_off := dec_off d + 1\<rparr>)
      })"

definition Decoder_get16 :: "Decoder \<Rightarrow> (16 word \<times> Decoder) option" where
  "Decoder_get16 d =
     (if length (dec_buf d) < dec_off d then None
      else do {
        (v, rest) \<leftarrow> bits_Get16 (drop (dec_off d) (dec_buf d));
        Some (v, d\<lparr>dec_off := dec_off d + 2\<rparr>)
      })"

definition Decoder_get64 :: "Decoder \<Rightarrow> (64 word \<times> Decoder) option" where
  "Decoder_get64 d =
     (if length (dec_buf d) < dec_off d then None
      else do {
        (v, rest) \<leftarrow> bits_Get64 (drop (dec_off d) (dec_buf d));
        Some (v, d\<lparr>dec_off := dec_off d + 8\<rparr>)
      })"

definition Decoder_gets :: "Decoder \<Rightarrow> 16 word \<Rightarrow> (string \<times> Decoder) option" where
  "Decoder_gets d n =
     (if length (dec_buf d) < dec_off d + unat n then None
      else Some (string_of_bytes (take (unat n) (drop (dec_off d) (dec_buf d))),
                 d\<lparr>dec_off := dec_off d + unat n\<rparr>))"

text \<open>The switch of \<open>Decode\<close>; the sums \<open>n + 2\<close> and \<open>n + 8\<close> are of type \<open>uint16\<close>.\<close>

definition Decode_body ::
  "'r Reader \<Rightarrow> Decoder \<Rightarrow> Message \<Rightarrow> 'r \<Rightarrow> (Message \<times> Decoder \<times> 'r) option" where
  "Decode_body rd d m r =
     (if msg_kind m = KindGet then
        do {
          (n, d1) \<leftarrow> Decoder_get16 d;
          (d2, r2) \<leftarrow> Decoder_read rd d1 n r;
          (key, d3) \<leftarrow> Decoder_gets d2 n;
          Some (m\<lparr>msg_key := key\<rparr>, d3, r2)
        }
      else if msg_kind m = KindPut then
        do {
          (n, d1) \<leftarrow> Decoder_get16 d;
          (d2, r2) \<leftarrow> Decoder_read rd d1 (n + 2) r;
          (key, d3) \<leftarrow> Decoder_gets d2 n;
          (n', d4) \<leftarrow> Decoder_get16 d3;
          (d5, r5) \<leftarrow> Decoder_read rd d4 (n' + 8) r2;
          (val, d6) \<leftarrow> Decoder_gets d5 n';
          (version, d7) \<leftarrow> Decoder_get64 d6;
          Some (m\<lparr>msg_key := key, msg_value := val, msg_version := version\<rparr>, d7, r5)
        }
      else if msg_kind m = KindAuth \<or> msg_kind m = KindError then
        do {
          (n, d1) \<leftarrow> Decoder_get16 d;
          (d2, r2) \<leftarrow> Decoder_read rd d1 n r;
          (val, d3) \<leftarrow> Decoder_gets d2 n;
          Some (m\<lparr>msg_value := val\<rparr>, d3, r2)
        }
      else Some (m, d, r))"

text \<open>
  \<open>Decode\<close> fills the message \<open>m\<close> it is given and returns \<open>d.err\<close>.
\<close>

definition Decode ::
  "'r Reader \<Rightarrow> Decoder \<Rightarrow> Message \<Rightarrow> 'r \<Rightarrow> (error option \<times> Message \<times> Decoder \<times> 'r) option" where
  "Decode rd d m r =
     do {
       (d1, r1) \<leftarrow> Decoder_read rd (d\<lparr>dec_err := None\<rparr>) 5 r;
       (kind, d2) \<leftarrow> Decoder_get8 d1;
       (tag, d3) \<leftarrow> Decoder_get16 d2;
       (m', d4, r4) \<leftarrow> Decode_body rd d3 (m\<lparr>msg_kind := kind, msg_tag := tag\<rparr>) r1;
       Some (dec_err d4, m', d4, r4)
     }"

subsection \<open>The wire layout\<close>

text \<open>
  The wire layout of the spec: the kind as one byte, the tag as a big-endian \<open>u16\<close>,
  then the fields of the kind, strings prefixed by their length as a \<open>u16\<close>.
\<close>

definition wire_layout :: "Message \<Rightarrow> bytes" where
  "wire_layout m =
     bits_Put8 (msg_kind m) @ bits_Put16 (msg_tag m) @
     (if msg_kind m = KindGet then bits_Puts (msg_key m)
      else if msg_kind m = KindPut
        then bits_Puts (msg_key m) @ bits_Puts (msg_value m) @ bits_Put64 (msg_version m)
      else bits_Puts (msg_value m))"

text \<open>
  An encoder holds \<open>pre\<close> when its buffer starts with \<open>pre\<close> and its offset is just
  behind it.
\<close>

definition holds :: "Encoder \<Rightarrow> bytes \<Rightarrow> bool" where
  "holds e pre = (enc_off e = length pre \<and> length pre \<le> length (enc_buf e) \<and>
                  take (length pre) (enc_buf e) = pre)"

subsection \<open>The round trip of the tests\<close>

text \<open>
  A \<open>bytes.Buffer\<close> as writer and as reader: a write appends, \<open>io.ReadFull\<close> takes the
  bytes asked for, or what is left with \<open>io.EOF\<close> or \<open>io.ErrUnexpectedEOF\<close>.
\<close>

definition Buffer_Writer :: "bytes Writer" where
  "Buffer_Writer = \<lparr>Write = (\<lambda>p b. ((length p, None), b @ p))\<rparr>"

definition Buffer_Reader :: "bytes Reader" where
  "Buffer_Reader =
     \<lparr>ReadFull = (\<lambda>n b.
        if n \<le> length b then ((take n b, None), drop n b)
        else if b = [] then (([], Some EOF), [])
        else ((b, Some ErrUnexpectedEOF), []))\<rparr>"

text \<open>
  \<open>packUnpack\<close> of the codec's test, with a fresh encoder and a fresh decoder: the
  message is encoded into an empty buffer and decoded from it into a zero message. The
  result is the two errors and the message decoded.
\<close>

definition packUnpack :: "Message \<Rightarrow> (error option \<times> error option \<times> Message) option" where
  "packUnpack inm =
     do {
       (err1, e, buf) \<leftarrow> Encode Buffer_Writer \<lparr>enc_buf = [], enc_off = 0\<rparr> inm [];
       (err2, out, d, buf') \<leftarrow>
         Decode Buffer_Reader \<lparr>dec_buf = [], dec_off = 0, dec_err = None\<rparr>
           \<lparr>msg_kind = 0, msg_tag = 0, msg_key = [], msg_value = [], msg_version = 0\<rparr> buf;
       Some (err1, err2, out)
     }"

section \<open>Applying a message to the store\<close>

fun decimal :: "nat \<Rightarrow> string" where
  "decimal n =
     (if n < 10 then [''0123456789'' ! n]
      else decimal (n div 10) @ [''0123456789'' ! (n mod 10)])"

text \<open>
  \<open>fmt\<close>'s verb \<open>%s\<close> on an operand of type \<open>Kind\<close>. \<open>fmt\<close> calls the method
  \<open>String() string\<close> of an operand that has one; \<open>Kind\<close> has none (its method is
  \<open>STring\<close>), and \<open>%s\<close> is not a verb of an unsigned integer, so \<open>fmt\<close> prints its
  bad-verb form: \<open>%!s(\<close>, the type, \<open>=\<close>, the value in decimal, \<open>)\<close>.
\<close>

definition Sprintf_s_Kind :: "Kind \<Rightarrow> string" where
  "Sprintf_s_Kind k = ''%!s(message.Kind='' @ decimal (unat k) @ '')''"

text \<open>
  The method \<open>Error()\<close> of an error: the texts of the sentinels, and for an error built
  by \<open>fmt.Errorf\<close> the text that \<open>fmt\<close>, the parameter \<open>format\<close>, renders.
\<close>

fun Error :: "(string \<Rightarrow> arg list \<Rightarrow> error option \<Rightarrow> string) \<Rightarrow> error \<Rightarrow> string" where
  "Error format ErrNotFound = ''Not found''"
| "Error format ErrStalePut = ''stale put''"
| "Error format ErrPasswordWithoutTLS = ''must use TLS if authorization is required''"
| "Error format ErrUnderflow = ''underflow''"
| "Error format ErrBadMessage = ''bad message''"
| "Error format ErrNotExist = ''file does not exist''"
| "Error format EOF = ''EOF''"
| "Error format ErrUnexpectedEOF = ''unexpected EOF''"
| "Error format (OtherError text) = text"
| "Error format (Errorf f a w) = format f a w"

definition ApplyMessage ::
  "(string \<Rightarrow> arg list \<Rightarrow> error option \<Rightarrow> string) \<Rightarrow> 'v VersionedStore \<Rightarrow> Message \<Rightarrow> 'v
     \<Rightarrow> (Message \<times> 'v) option" where
  "ApplyMessage format store inm v =
     (let inTag = msg_tag inm; kind = msg_kind inm
      in if kind = KindGet then
           (case Message_Key inm of
              None \<Rightarrow> None
            | Some key \<Rightarrow>
                (case VersionedStore_Get store (bytes_of_string key) v of
                   (version, val, Some err) \<Rightarrow> Some (NewErrorMessage inTag (Error format err), v)
                 | (version, val, None) \<Rightarrow>
                     Some (NewPutMessage inTag key
                             (string_of_bytes (case val of None \<Rightarrow> [] | Some b \<Rightarrow> b)) version, v)))
         else if kind = KindPut then
           (case (Message_Version inm, Message_Key inm, Message_Value inm) of
              (Some version, Some key, Some val) \<Rightarrow>
                (case VersionedStore_Put store version (bytes_of_string key) (bytes_of_string val) v of
                   (Some err, v') \<Rightarrow> Some (NewErrorMessage inTag (Error format err), v')
                 | (None, v') \<Rightarrow> Some (inm, v'))
            | _ \<Rightarrow> None)
         else if kind = KindAuth \<or> kind = KindError then
           Some (NewErrorMessage inTag
                   (''messages of kind '' @ Sprintf_s_Kind kind @ '' cannot be applied''), v)
         else Some (NewErrorMessage inTag ''unknown message kind'', v))"

section \<open>The metadata server's listener\<close>

text \<open>
  The options of the server (its store apart, which \<open>Listen\<close> does not read), and the
  functional options that set them.
\<close>

record options =
  bind :: string
  tls :: bool
  certFile :: string
  keyFile :: string
  authHash :: string

datatype ServerOption = WithBind string | WithKeyPair string string | WithAuthHash string

fun apply_ServerOption :: "ServerOption \<Rightarrow> options \<Rightarrow> options" where
  "apply_ServerOption (WithBind b) ops = ops\<lparr>bind := b\<rparr>"
| "apply_ServerOption (WithKeyPair c k) ops = ops\<lparr>tls := True, certFile := c, keyFile := k\<rparr>"
| "apply_ServerOption (WithAuthHash h) ops = ops\<lparr>authHash := h\<rparr>"

text \<open>A listener is known by the address it reports; \<open>ln\<close> is \<open>None\<close> for nil.\<close>

type_synonym Listener = string

record Server =
  opts :: options
  ln :: "Listener option"

definition New :: "ServerOption list \<Rightarrow> Server" where
  "New os =
     \<lparr>opts = fold apply_ServerOption os
               \<lparr>bind = '':8000'', tls = False, certFile = [], keyFile = [], authHash = []\<rparr>,
      ln = None\<rparr>"

text \<open>
  The libraries \<open>crypto/tls\<close> and \<open>net\<close> are parameters, acting on a state \<open>'n\<close> of
  the network; each returns an error or a result.
\<close>

record ('n, 'c) Net =
  LoadX509KeyPair :: "string \<Rightarrow> string \<Rightarrow> 'n \<Rightarrow> error + 'c"
  tls_Listen :: "string \<Rightarrow> 'c \<Rightarrow> 'n \<Rightarrow> (error + Listener) \<times> 'n"
  net_Listen :: "string \<Rightarrow> 'n \<Rightarrow> (error + Listener) \<times> 'n"

text \<open>
  \<open>Server.Listen\<close> returns \<open>(addr, err)\<close>, the server and the network. The assignment
  \<open>s.ln, err = ...\<close> stores the listener, or nil with an error.
\<close>

definition Listen_finish ::
  "Server \<Rightarrow> (error + Listener) \<times> 'n \<Rightarrow> (string \<times> error option) \<times> Server \<times> 'n" where
  "Listen_finish s r =
     (case r of
        (Inl err, w') \<Rightarrow> (([], Some err), s\<lparr>ln := None\<rparr>, w')
      | (Inr l, w') \<Rightarrow> ((l, None), s\<lparr>ln := Some l\<rparr>, w'))"

definition Listen ::
  "('n, 'c) Net \<Rightarrow> Server \<Rightarrow> 'n \<Rightarrow> (string \<times> error option) \<times> Server \<times> 'n" where
  "Listen net s w =
     (if tls (opts s) then
        (case LoadX509KeyPair net (certFile (opts s)) (keyFile (opts s)) w of
           Inr c \<Rightarrow> Listen_finish s (tls_Listen net (bind (opts s)) c w)
         | Inl err \<Rightarrow> (([], Some err), s, w))
      else if authHash (opts s) \<noteq> [] then (([], Some ErrPasswordWithoutTLS), s, w)
      else Listen_finish s (net_Listen net (bind (opts s)) w))"

section \<open>Filesystem nodes\<close>

text \<open>
  Nodes are shared through pointers, so they live in a heap: a function from addresses to
  nodes, with the next address to allocate. A Go map that may be nil is an option of a
  map. The values of \<open>xattrs\<close> are never nil slices: \<open>Setxattr\<close> stores
  \<open>append([]byte{}, data...)\<close>, \<open>unserialize\<close> a slice of its buffer. \<open>Time\<close> is
  the node's time in nanoseconds since the epoch.
\<close>

type_synonym addr = nat

record CryptNode =
  shouldSaveMetadata :: bool
  shouldReloadMetadata :: bool
  shouldSaveContent :: bool
  User :: "32 word"
  Group :: "32 word"
  Mode :: "32 word"
  Time :: int
  name :: string
  Key :: bytes
  version :: "64 word"
  xattrs :: "(string \<rightharpoonup> bytes) option"
  contentKey :: bytes
  content :: bytes
  Children :: "(string \<rightharpoonup> addr) option"

definition NodeKeyLen :: nat where "NodeKeyLen = 20"

definition modeNotLoaded :: "32 word" where "modeNotLoaded = 0xffffffff"

text \<open>The zero value of the struct, which \<open>var node CryptNode\<close> declares.\<close>

definition zero_CryptNode :: CryptNode where
  "zero_CryptNode =
     \<lparr>shouldSaveMetadata = False, shouldReloadMetadata = False, shouldSaveContent = False,
      User = 0, Group = 0, Mode = 0, Time = 0, name = [], Key = replicate NodeKeyLen 0,
      version = 0, xattrs = None, contentKey = [], content = [], Children = None\<rparr>"

text \<open>
  What the factory holds that does not change: the hash and the delegate of its blob
  store, its metadata store, and the order in which the runtime ranges over the keys of
  a map, which Go leaves open.
\<close>

record ('b, 'm) CryptNodeFactory =
  Sum512 :: "bytes \<Rightarrow> bytes"
  Blobs :: "'b Store"
  Metadata :: "'m VersionedStore"
  range_xattrs :: "(string \<rightharpoonup> bytes) \<Rightarrow> string list"
  range_Children :: "(string \<rightharpoonup> addr) \<Rightarrow> string list"

text \<open>What changes: the heap, the registry \<open>known\<close>, and the states of the two stores.\<close>

record ('b, 'm) state =
  heap :: "addr \<Rightarrow> CryptNode"
  next_addr :: addr
  known :: "(bytes \<rightharpoonup> addr) option"
  blobs :: 'b
  metadata :: 'm

definition upd_node ::
  "('b, 'm) state \<Rightarrow> addr \<Rightarrow> (CryptNode \<Rightarrow> CryptNode) \<Rightarrow> ('b, 'm) state" where
  "upd_node st p f = st\<lparr>heap := (heap st)(p := f (heap st p))\<rparr>"

subsection \<open>The registry\<close>

definition addKnown :: "('b, 'm) state \<Rightarrow> addr \<Rightarrow> ('b, 'm) state" where
  "addKnown st node =
     (let kn = (case known st of None \<Rightarrow> Map.empty | Some m \<Rightarrow> m)
      in if kn (Key (heap st node)) \<noteq> None then st\<lparr>known := Some kn\<rparr>
         else st\<lparr>known := Some (kn(Key (heap st node) \<mapsto> node))\<rparr>)"

definition getKnown :: "('b, 'm) state \<Rightarrow> bytes \<Rightarrow> addr option" where
  "getKnown st key = (case known st of None \<Rightarrow> None | Some m \<Rightarrow> m key)"

definition ExistingNode :: "('b, 'm) state \<Rightarrow> string \<Rightarrow> bytes \<Rightarrow> addr \<times> ('b, 'm) state" where
  "ExistingNode st nm key =
     (let node = next_addr st;
          st1 = st\<lparr>heap := (heap st)(node := zero_CryptNode\<lparr>Key := key, name := nm, Mode := modeNotLoaded\<rparr>),
                   next_addr := node + 1\<rparr>
      in (node, addKnown st1 node))"

subsection \<open>Serialization and sync\<close>

definition serialize :: "('b, 'm) CryptNodeFactory \<Rightarrow> (addr \<Rightarrow> CryptNode) \<Rightarrow> CryptNode \<Rightarrow> bytes" where
  "serialize f h node =
     (let xm = (case xattrs node of None \<Rightarrow> Map.empty | Some m \<Rightarrow> m);
          cm = (case Children node of None \<Rightarrow> Map.empty | Some m \<Rightarrow> m)
      in bits_Put32 (User node) @ bits_Put32 (Group node) @ bits_Put32 (Mode node) @
         bits_Put64 (word_of_int (Time node)) @
         bits_Putb (contentKey node) @
         bits_Put16 (of_nat (length (range_xattrs f xm))) @
         concat (map (\<lambda>attr. bits_Puts attr @
                        bits_Putb (case xm attr of None \<Rightarrow> [] | Some val \<Rightarrow> val))
                   (range_xattrs f xm)) @
         concat (map (\<lambda>childName. bits_Puts childName @
                        (case cm childName of None \<Rightarrow> [] | Some childNode \<Rightarrow> bits_Putb (Key (h childNode))))
                   (range_Children f cm)))"

definition saveMetadata ::
  "('b, 'm) CryptNodeFactory \<Rightarrow> ('b, 'm) state \<Rightarrow> addr \<Rightarrow> error option \<times> ('b, 'm) state" where
  "saveMetadata f st node =
     (let val = serialize f (heap st) (heap st node);
          (err, ms) = VersionedStore_Put (Metadata f) (version (heap st node) + 1)
                        (Key (heap st node)) val (metadata st)
      in if err \<noteq> None then (err, st\<lparr>metadata := ms\<rparr>)
         else (None, upd_node (st\<lparr>metadata := ms\<rparr>) node (\<lambda>n. n\<lparr>version := version n + 1\<rparr>)))"

datatype Errno = OK | EIO | EEXIST | ENODATA

text \<open>
  The first block of \<open>sync\<close>: the result is \<open>Some EIO\<close> when the code returns from it,
  \<open>None\<close> when it goes on to the second block.
\<close>

definition sync_saveContent ::
  "('b, 'm) CryptNodeFactory \<Rightarrow> ('b, 'm) state \<Rightarrow> addr \<Rightarrow> Errno option \<times> ('b, 'm) state" where
  "sync_saveContent f st node =
     (if shouldSaveContent (heap st node) then
        let prev = contentKey (heap st node);
            (k, err, bs) = BlobStoreWrapper_Put (Sum512 f) (Blobs f) (content (heap st node)) (blobs st);
            st1 = upd_node (st\<lparr>blobs := bs\<rparr>) node (\<lambda>n. n\<lparr>contentKey := k\<rparr>)
        in if err \<noteq> None then (Some EIO, st1)
           else let st2 = upd_node st1 node (\<lambda>n. n\<lparr>shouldSaveContent := False\<rparr>)
             in if prev \<noteq> k
                  then (None, upd_node st2 node (\<lambda>n. n\<lparr>shouldSaveMetadata := True\<rparr>))
                else (None, st2)
      else (None, st))"

definition sync_saveMetadata ::
  "('b, 'm) CryptNodeFactory \<Rightarrow> ('b, 'm) state \<Rightarrow> addr \<Rightarrow> Errno \<times> ('b, 'm) state" where
  "sync_saveMetadata f st node =
     (if shouldSaveMetadata (heap st node) then
        let (err, st1) = saveMetadata f st node
        in if err \<noteq> None then
             (if errors_Is err ErrStalePut
                then (EIO, upd_node st1 node (\<lambda>n. n\<lparr>shouldReloadMetadata := True\<rparr>))
              else (EIO, st1))
           else (OK, upd_node st1 node (\<lambda>n. n\<lparr>shouldSaveMetadata := False\<rparr>))
      else (OK, st))"

definition sync ::
  "('b, 'm) CryptNodeFactory \<Rightarrow> ('b, 'm) state \<Rightarrow> addr \<Rightarrow> Errno \<times> ('b, 'm) state" where
  "sync f st node =
     (case sync_saveContent f st node of
        (Some errno, st1) \<Rightarrow> (errno, st1)
      | (None, st1) \<Rightarrow> sync_saveMetadata f st1 node)"

subsection \<open>Setxattr\<close>

definition XATTR_CREATE :: "32 word" where "XATTR_CREATE = 1"
definition XATTR_REPLACE :: "32 word" where "XATTR_REPLACE = 2"

definition xattrs_map :: "CryptNode \<Rightarrow> (string \<rightharpoonup> bytes)" where
  "xattrs_map n = (case xattrs n of None \<Rightarrow> Map.empty | Some m \<Rightarrow> m)"

text \<open>
  \<open>Setxattr\<close>; the result is \<open>None\<close> where the code would panic, assigning to an entry
  of a nil map.
\<close>

definition Setxattr ::
  "('b, 'm) CryptNodeFactory \<Rightarrow> ('b, 'm) state \<Rightarrow> addr \<Rightarrow> string \<Rightarrow> bytes \<Rightarrow> 32 word
     \<Rightarrow> (Errno \<times> ('b, 'm) state) option" where
  "Setxattr f st node attr data flags =
     (let st0 = (if xattrs (heap st node) = None
                   then upd_node st node (\<lambda>n. n\<lparr>xattrs := Some Map.empty\<rparr>) else st);
          xa = xattrs_map (heap st0 node)
      in if flags = XATTR_CREATE \<and> xa attr \<noteq> None then Some (EEXIST, st0)
         else if flags = XATTR_REPLACE \<and> xa attr = None then Some (ENODATA, st0)
         else
           let rbdata = xa attr;
               st1 = upd_node st0 node (\<lambda>n. n\<lparr>xattrs := Some (xa(attr \<mapsto> data)),
                                               shouldSaveMetadata := True\<rparr>);
               (errno, st2) = sync f st1 node
           in if errno \<noteq> OK then
                (case rbdata of
                   Some old \<Rightarrow>
                     (case xattrs (heap st2 node) of
                        None \<Rightarrow> None
                      | Some m \<Rightarrow> Some (errno, upd_node st2 node (\<lambda>n. n\<lparr>xattrs := Some (m(attr \<mapsto> old))\<rparr>)))
                 | None \<Rightarrow>
                     Some (errno, upd_node st2 node
                             (\<lambda>n. n\<lparr>xattrs := map_option (\<lambda>m. m(attr := None)) (xattrs n)\<rparr>)))
              else Some (errno, st2))"

section \<open>Example configurations\<close>

text \<open>A network on which every key pair loads and every address can be bound.\<close>

definition net0 :: "(unit, unit) Net" where
  "net0 = \<lparr>LoadX509KeyPair = (\<lambda>c k w. Inr ()),
           tls_Listen = (\<lambda>b c w. (Inr b, w)),
           net_Listen = (\<lambda>b w. (Inr b, w))\<rparr>"

text \<open>A state with one node, the zero node at address 0, registered under the root key.\<close>

definition st_one :: "(unit, unit) state" where
  "st_one = \<lparr>heap = (\<lambda>a. zero_CryptNode), next_addr = 1,
             known = Some [replicate 20 0 \<mapsto> 0], blobs = (), metadata = ()\<rparr>"

text \<open>
  The metadata store of the node tests: a \<open>VersionedWrapper\<close> over an in-memory
  store (a panic of the wrapper shown as an error). A factory over it, with the
  in-memory store for blobs, a stand-in for the hash, and maps ranged over in the order
  of a fixed list of names. A second factory whose metadata store refuses every put.
\<close>

definition VersionedWrapper :: "'s Store \<Rightarrow> 's VersionedStore" where
  "VersionedWrapper d =
     \<lparr>VersionedStore_Put = (\<lambda>version key val s.
          case VersionedWrapper_Put d version key val s of
            Some r \<Rightarrow> r | None \<Rightarrow> (Some (OtherError ''panic''), s)),
      VersionedStore_Get = (\<lambda>key s.
          case VersionedWrapper_Get d key s of
            Some r \<Rightarrow> r | None \<Rightarrow> (0, None, Some (OtherError ''panic'')))\<rparr>"

definition factory0 :: "(bytes \<rightharpoonup> bytes, bytes \<rightharpoonup> bytes) CryptNodeFactory" where
  "factory0 =
     \<lparr>Sum512 = (\<lambda>v. rev v), Blobs = InMemoryStore, Metadata = VersionedWrapper InMemoryStore,
      range_xattrs = (\<lambda>m. filter (\<lambda>a. m a \<noteq> None) [''user.a'', ''user.b'']),
      range_Children = (\<lambda>m. filter (\<lambda>a. m a \<noteq> None) [''d'', ''f''])\<rparr>"

definition factory_failing :: "(bytes \<rightharpoonup> bytes, bytes \<rightharpoonup> bytes) CryptNodeFactory" where
  "factory_failing =
     factory0\<lparr>Metadata :=
       \<lparr>VersionedStore_Put = (\<lambda>version key val s. (Some (OtherError ''injected''), s)),
        VersionedStore_Get = (\<lambda>key s. (0, None, Some (OtherError ''injected'')))\<rparr>\<rparr>"

text \<open>
  A file node with content to save and one extended attribute, over empty stores; and a
  node with its metadata to save, over a metadata store that already holds version 1 of
  its key.
\<close>

definition st_file :: "(bytes \<rightharpoonup> bytes, bytes \<rightharpoonup> bytes) state" where
  "st_file =
     \<lparr>heap = (\<lambda>a. zero_CryptNode\<lparr>shouldSaveContent := True, content := [1, 2],
                                   xattrs := Some [''user.a'' \<mapsto> [9]]\<rparr>),
      next_addr = 1, known = None, blobs = Map.empty, metadata = Map.empty\<rparr>"

definition st_behind :: "(bytes \<rightharpoonup> bytes, bytes \<rightharpoonup> bytes) state" where
  "st_behind =
     \<lparr>heap = (\<lambda>a. zero_CryptNode\<lparr>shouldSaveMetadata := True\<rparr>),
      next_addr = 1, known = None, blobs = Map.empty,
      metadata = [replicate 20 0 \<mapsto> PutUint64 1]\<rparr>"

section \<open>Properties of the stores\<close>

subsection \<open>Big-endian version prefix\<close>

lemma Uint64_PutUint64: "Uint64 (PutUint64 v @ rest) = v"
  unfolding Uint64_def PutUint64_def be_word_def
  apply simp
  apply (rule bit_word_eqI)
  apply (simp add: bit_simps less_diff_conv2 cong: conj_cong)
  apply (case_tac "bit v n")
   apply simp_all
  apply linarith
  done

lemma length_PutUint64: "length (PutUint64 v) = 8"
  by (simp add: PutUint64_def)

lemma Uint64_PutUint64_only: "Uint64 (PutUint64 v) = v"
  using Uint64_PutUint64 [of v "[]"] by simp

subsection \<open>Versioned put\<close>

text \<open>
  Claim C1, as the code has it, over the in-memory delegate. On a key with no entry
  \<open>Put v k val\<close> succeeds whatever \<open>v\<close> is: the version is compared only when an
  entry exists. On a key whose entry \<open>Get\<close> reads as version \<open>cur\<close>, it fails with
  \<open>ErrStalePut\<close>, leaving the store as it was, when \<open>v < cur + 1\<close> in 64-bit
  arithmetic, and writes the entry otherwise; so it succeeds at \<open>v = cur + 1\<close> and fails
  at every \<open>v \<le> cur\<close> (for \<open>cur\<close> below the largest version). After a successful
  put, \<open>Get\<close> returns the version and the value put.
\<close>

theorem VersionedWrapper_Put_InMemoryStore:
  "(m k = None \<longrightarrow>
      VersionedWrapper_Put InMemoryStore v k val m = Some (None, m(k \<mapsto> PutUint64 v @ val))) \<and>
   (VersionedWrapper_Get InMemoryStore k m = Some (cur, Some old, None) \<longrightarrow>
      VersionedWrapper_Put InMemoryStore v k val m =
        Some (if v < cur + 1 then (Some ErrStalePut, m)
              else (None, m(k \<mapsto> PutUint64 v @ val)))) \<and>
   VersionedWrapper_Get InMemoryStore k (m(k \<mapsto> PutUint64 v @ val)) = Some (v, Some val, None)"
proof (intro conjI impI)
  assume "m k = None"
  then show "VersionedWrapper_Put InMemoryStore v k val m = Some (None, m(k \<mapsto> PutUint64 v @ val))"
    by (simp add: VersionedWrapper_Put_def InMemoryStore_def InMemoryStore_Get_def
        InMemoryStore_Put_def errors_Is_def)
next
  assume g: "VersionedWrapper_Get InMemoryStore k m = Some (cur, Some old, None)"
  then obtain c where c: "m k = Some c" "\<not> length c < 8" "cur = Uint64 (take 8 c)"
    by (auto simp add: VersionedWrapper_Get_def InMemoryStore_def InMemoryStore_Get_def
        split: option.splits if_splits)
  then show "VersionedWrapper_Put InMemoryStore v k val m =
        Some (if v < cur + 1 then (Some ErrStalePut, m)
              else (None, m(k \<mapsto> PutUint64 v @ val)))"
    by (simp add: VersionedWrapper_Put_def InMemoryStore_def InMemoryStore_Get_def
        InMemoryStore_Put_def)
next
  show "VersionedWrapper_Get InMemoryStore k (m(k \<mapsto> PutUint64 v @ val)) = Some (v, Some val, None)"
    by (simp add: VersionedWrapper_Get_def InMemoryStore_def InMemoryStore_Get_def
        length_PutUint64 Uint64_PutUint64_only)
qed

text \<open>
  The theorem at work: a first put at version 1, a second put at version 1 (stale), and a
  put at version 2.
\<close>

theorem VersionedWrapper_Put_InMemoryStore_witness:
  "VersionedWrapper_Put InMemoryStore 1 [1] [7] Map.empty = Some (None, [[1] \<mapsto> PutUint64 1 @ [7]]) \<and>
   VersionedWrapper_Put InMemoryStore 1 [1] [8] [[1] \<mapsto> PutUint64 1 @ [7]]
     = Some (Some ErrStalePut, [[1] \<mapsto> PutUint64 1 @ [7]]) \<and>
   VersionedWrapper_Put InMemoryStore 2 [1] [8] [[1] \<mapsto> PutUint64 1 @ [7]]
     = Some (None, [[1] \<mapsto> PutUint64 2 @ [8]])"
proof -
  have g: "VersionedWrapper_Get InMemoryStore [1] [[1] \<mapsto> PutUint64 1 @ [7]] = Some (1, Some [7], None)"
    using VersionedWrapper_Put_InMemoryStore [of Map.empty "[1]" 1 "[7]"] by simp
  show ?thesis
    using VersionedWrapper_Put_InMemoryStore [of Map.empty "[1]" 1 "[7]"]
      VersionedWrapper_Put_InMemoryStore [of "[[1] \<mapsto> PutUint64 1 @ [7]]" "[1]" 1 "[8]" 1 "[7]"]
      VersionedWrapper_Put_InMemoryStore [of "[[1] \<mapsto> PutUint64 1 @ [7]]" "[1]" 2 "[8]" 1 "[7]"] g
    by simp
qed

text \<open>
  Against the claim as stated: with version 1 stored, a put at version 5 is accepted, and
  on an empty store a put at version 0 is accepted.
\<close>

theorem VersionedWrapper_Put_counterexample:
  "VersionedWrapper_Put InMemoryStore 5 [1] [8] [[1] \<mapsto> PutUint64 1 @ [7]]
     = Some (None, [[1] \<mapsto> PutUint64 5 @ [8]]) \<and>
   VersionedWrapper_Put InMemoryStore 0 [1] [8] Map.empty
     = Some (None, [[1] \<mapsto> PutUint64 0 @ [8]])"
  by (simp add: VersionedWrapper_Put_def InMemoryStore_def InMemoryStore_Get_def
      InMemoryStore_Put_def errors_Is_def Uint64_PutUint64_only length_PutUint64)

subsection \<open>Paired get\<close>

text \<open>
  \<open>Paired.Get\<close> returns whatever the fast store returns: the first test sends every
  error back, \<open>ErrNotFound\<close> included, and a nil error passes the second test.
\<close>

lemma Paired_Get_fast_only:
  "Paired_Get fast slow k fs ss = (Store_Get fast k fs, fs)"
  by (simp add: Paired_Get_def errors_Is_def split: prod.splits)

text \<open>
  Claim C2 at a key that only the slow store holds: the fast store is empty, the slow
  store maps the key \<open>[1]\<close> to \<open>[7]\<close>, and \<open>Paired.Get\<close> returns the fast store's
  not-found error instead of the value.
\<close>

theorem Paired_Get_slow_only_key:
  "Paired_Get InMemoryStore InMemoryStore [1] Map.empty [[1] \<mapsto> [7]]
     = ((None, Some (Errorf ''%.40q: %w'' [ArgBytes [1]] (Some ErrNotFound))), Map.empty)"
  by (simp add: Paired_Get_def InMemoryStore_def InMemoryStore_Get_def)

subsection \<open>Blob store\<close>

lemma honours_put_get_InMemoryStore: "honours_put_get InMemoryStore"
  by (simp add: honours_put_get_def InMemoryStore_def InMemoryStore_Put_def InMemoryStore_Get_def)

text \<open>
  Claim C6. \<open>BlobStoreWrapper.Put\<close> returns the key \<open>H v\<close>, so two puts of the same
  value return the same key whatever the states of the store; and over a delegate that
  honours the put/get contract, a get of the key returned by a put that reported no error
  returns the value put.
\<close>

theorem BlobStoreWrapper_Put_Get:
  assumes "honours_put_get d"
  shows "fst (BlobStoreWrapper_Put H d v s) = H v \<and>
         fst (BlobStoreWrapper_Put H d v s1) = fst (BlobStoreWrapper_Put H d v s2) \<and>
         (\<forall>key s'. BlobStoreWrapper_Put H d v s = (key, None, s') \<longrightarrow>
                   BlobStoreWrapper_Get d key s' = (Some v, None))"
proof (intro conjI allI impI)
  show "fst (BlobStoreWrapper_Put H d v s) = H v"
    by (simp add: BlobStoreWrapper_Put_def Let_def split: prod.splits)
  show "fst (BlobStoreWrapper_Put H d v s1) = fst (BlobStoreWrapper_Put H d v s2)"
    by (simp add: BlobStoreWrapper_Put_def Let_def split: prod.splits)
next
  fix key s'
  assume p: "BlobStoreWrapper_Put H d v s = (key, None, s')"
  then have "Store_Put d (H v) v s = (None, s')" and k: "key = H v"
    by (auto simp add: BlobStoreWrapper_Put_def Let_def split: prod.splits)
  with assms have "Store_Get d (H v) s' = (Some v, None)"
    unfolding honours_put_get_def
    by (metis (mono_tags, lifting) case_prod_conv option.simps(4))
  with k show "BlobStoreWrapper_Get d key s' = (Some v, None)"
    by (simp add: BlobStoreWrapper_Get_def)
qed

theorem BlobStoreWrapper_Put_Get_witness:
  "honours_put_get InMemoryStore \<and>
   BlobStoreWrapper_Put (\<lambda>v. rev v) InMemoryStore [1, 2] Map.empty
     = ([2, 1], None, [[2, 1] \<mapsto> [1, 2]]) \<and>
   BlobStoreWrapper_Get InMemoryStore [2, 1] [[2, 1] \<mapsto> [1, 2]] = (Some [1, 2], None)"
proof -
  have p: "BlobStoreWrapper_Put (\<lambda>v. rev v) InMemoryStore [1, 2] Map.empty
             = ([2, 1], None, [[2, 1] \<mapsto> [1, 2]])"
    by (simp add: BlobStoreWrapper_Put_def Let_def InMemoryStore_def InMemoryStore_Put_def)
  show ?thesis
    using BlobStoreWrapper_Put_Get [OF honours_put_get_InMemoryStore, of "\<lambda>v. rev v" "[1, 2]" Map.empty] p
      honours_put_get_InMemoryStore
    by simp
qed

subsection \<open>Disk store\<close>

text \<open>
  Claim C10. \<open>DiskStore.Put\<close> reports success exactly when the first \<open>WriteFile\<close>
  fails, and a "could not write" error (wrapping a nil error) when it succeeds; the file
  system is left as that one \<open>WriteFile\<close> left it, and the result does not depend on
  \<open>MkdirAll\<close>, which is never reached.
\<close>

theorem DiskStore_Put_inverted:
  "DiskStore_Put os dir key val fs =
     (case WriteFile os (pathFor os dir key) val fs of
        (None, fs1) \<Rightarrow>
          (Some (Errorf ''could not write %q: %w'' [ArgString (pathFor os dir key)] None), fs1)
      | (Some e, fs1) \<Rightarrow> (None, fs1)) \<and>
   (fst (DiskStore_Put os dir key val fs) = None) =
     (fst (WriteFile os (pathFor os dir key) val fs) \<noteq> None) \<and>
   DiskStore_Put (os\<lparr>MkdirAll := mk\<rparr>) dir key val fs = DiskStore_Put os dir key val fs"
  by (auto simp add: DiskStore_Put_def pathFor_def Let_def split: prod.splits option.splits)

section \<open>Properties of the metadata server\<close>

subsection \<open>Messages that cannot be applied\<close>

lemma ApplyMessage_kind_reply:
  "msg_kind m = KindError \<or> msg_kind m = KindAuth \<Longrightarrow>
   ApplyMessage format store m v =
     Some (NewErrorMessage (msg_tag m)
             (''messages of kind '' @ Sprintf_s_Kind (msg_kind m) @ '' cannot be applied''), v)"
  by (auto simp add: ApplyMessage_def KindGet_def KindPut_def KindError_def KindAuth_def)

lemma Sprintf_s_KindError: "Sprintf_s_Kind KindError = ''%!s(message.Kind=2)''"
  by (simp add: Sprintf_s_Kind_def KindError_def)

lemma Sprintf_s_KindAuth: "Sprintf_s_Kind KindAuth = ''%!s(message.Kind=3)''"
  by (simp add: Sprintf_s_Kind_def KindAuth_def)

text \<open>
  Claim C8 at the two requests of the server's tests. The reply is an ERROR message with
  the request's tag, but its text carries \<open>fmt\<close>'s bad-verb rendering of the kind, not
  the names \<open>ERROR\<close> and \<open>AUTH\<close> that the method \<open>STring\<close> would give.
\<close>

theorem ApplyMessage_Error_Auth:
  "ApplyMessage format store (NewErrorMessage 431 ''test error'') v =
     Some (NewErrorMessage 431 ''messages of kind %!s(message.Kind=2) cannot be applied'', v) \<and>
   ApplyMessage format store (NewAuthMessage 439 ''password'') v =
     Some (NewErrorMessage 439 ''messages of kind %!s(message.Kind=3) cannot be applied'', v) \<and>
   STring KindError = ''ERROR'' \<and> STring KindAuth = ''AUTH''"
proof -
  have e: "msg_kind (NewErrorMessage 431 ''test error'') = KindError"
    and a: "msg_kind (NewAuthMessage 439 ''password'') = KindAuth"
    by (simp_all add: NewErrorMessage_def NewAuthMessage_def)
  have n: "STring KindError = ''ERROR''" "STring KindAuth = ''AUTH''"
    by (simp_all add: STring_def KindGet_def KindPut_def KindError_def KindAuth_def kindCount_def)
  show ?thesis
    using ApplyMessage_kind_reply [of "NewErrorMessage 431 ''test error''" format store v]
      ApplyMessage_kind_reply [of "NewAuthMessage 439 ''password''" format store v]
    by (simp add: e a n Sprintf_s_KindError Sprintf_s_KindAuth)
       (simp add: NewErrorMessage_def NewAuthMessage_def)
qed

subsection \<open>Listening with a password\<close>

text \<open>
  Claim C9. Without a TLS key pair and with a non-empty auth hash, \<open>Listen\<close> returns
  \<open>ErrPasswordWithoutTLS\<close> and leaves the server and the network as they were: no
  listener is bound. With a key pair, the auth hash has no effect on what \<open>Listen\<close>
  returns or does.
\<close>

theorem Listen_PasswordWithoutTLS:
  "(\<not> tls (opts s) \<and> authHash (opts s) \<noteq> [] \<longrightarrow>
      Listen net s w = (([], Some ErrPasswordWithoutTLS), s, w)) \<and>
   (tls (opts s) \<longrightarrow>
      Listen net (s\<lparr>opts := (opts s)\<lparr>authHash := h\<rparr>\<rparr>) w =
        (case Listen net s w of
           (r, s', w') \<Rightarrow> (r, s'\<lparr>opts := (opts s')\<lparr>authHash := h\<rparr>\<rparr>, w')))"
  by (auto simp add: Listen_def Listen_finish_def split: sum.splits prod.splits)

theorem Listen_PasswordWithoutTLS_witness:
  "Listen net0 (New [WithAuthHash ''anything'']) ()
     = (([], Some ErrPasswordWithoutTLS), New [WithAuthHash ''anything''], ()) \<and>
   Listen net0 (New [WithKeyPair ''cert.pem'' ''key.pem'', WithAuthHash ''anything'']) ()
     = (('':8000'', None),
        (New [WithKeyPair ''cert.pem'' ''key.pem'', WithAuthHash ''anything''])\<lparr>ln := Some '':8000''\<rparr>, ())"
  using Listen_PasswordWithoutTLS [of "New [WithAuthHash ''anything'']" net0 "()"]
    Listen_PasswordWithoutTLS [of "New [WithKeyPair ''cert.pem'' ''key.pem'']" net0 "()" "''anything''"]
  by (simp add: New_def Listen_def Listen_finish_def net0_def)

section \<open>Properties of the node engine\<close>

subsection \<open>The registry\<close>

text \<open>
  Claim C3, as the code has it. When the key is already registered, for a node at an
  allocated address, \<open>ExistingNode\<close> leaves the registry as it was, entry of the key
  included, and leaves the registered node untouched; the node it returns is a new one,
  at a fresh address, carrying the given name and key and the mode \<open>modeNotLoaded\<close>.
\<close>

theorem ExistingNode_registered_key:
  assumes "getKnown st key = Some p0" and "p0 < next_addr st"
  shows "fst (ExistingNode st nm key) = next_addr st \<and>
         fst (ExistingNode st nm key) \<noteq> p0 \<and>
         getKnown (snd (ExistingNode st nm key)) = getKnown st \<and>
         heap (snd (ExistingNode st nm key)) p0 = heap st p0 \<and>
         heap (snd (ExistingNode st nm key)) (fst (ExistingNode st nm key)) =
           zero_CryptNode\<lparr>Key := key, name := nm, Mode := modeNotLoaded\<rparr>"
  using assms
  by (auto simp add: ExistingNode_def addKnown_def getKnown_def Let_def fun_eq_iff
      split: option.splits)

theorem ExistingNode_registered_key_witness:
  "getKnown st_one (replicate 20 0) = Some 0 \<and> 0 < next_addr st_one \<and>
   fst (ExistingNode st_one ''d'' (replicate 20 0)) = 1 \<and>
   getKnown (snd (ExistingNode st_one ''d'' (replicate 20 0))) (replicate 20 0) = Some 0"
proof -
  have g: "getKnown st_one (replicate 20 0) = Some 0" and n: "0 < next_addr st_one"
    by (simp_all add: getKnown_def st_one_def)
  show ?thesis
    using ExistingNode_registered_key [OF g n, of "''d''"] g n
    by (simp add: st_one_def)
qed

text \<open>
  Against the claim as stated: the root key is registered for the node at address 0, and
  \<open>ExistingNode\<close> with that key returns the node at address 1.
\<close>

theorem ExistingNode_counterexample:
  "getKnown st_one (replicate 20 0) = Some 0 \<and>
   fst (ExistingNode st_one ''d'' (replicate 20 0)) = 1"
  by (simp add: getKnown_def st_one_def ExistingNode_def Let_def)

subsection \<open>sync\<close>

lemma heap_upd_node: "heap (upd_node st p g) q = (if q = p then g (heap st p) else heap st q)"
  by (simp add: upd_node_def)

lemma metadata_upd_node: "metadata (upd_node st p g) = metadata st"
  by (simp add: upd_node_def)

lemma blobs_upd_node: "blobs (upd_node st p g) = blobs st"
  by (simp add: upd_node_def)

text \<open>
  Claim C4. The first block of \<open>sync\<close>, on a state \<open>st\<close>: with \<open>shouldSaveContent\<close>
  unset it changes nothing. Otherwise the content is put to the blob store; on an error
  \<open>sync\<close> returns \<open>EIO\<close> with every flag and the version as they were and nothing put
  to the metadata store (the field \<open>contentKey\<close> holds the key the put returned); on
  success \<open>shouldSaveContent\<close> is cleared, \<open>contentKey\<close> is the new key, and
  \<open>shouldSaveMetadata\<close> is set when the new key differs from the previous one and is
  left as it was when it does not. \<open>sync\<close> then runs its second block on that state.

  The second block, on a state \<open>s\<close>: with \<open>shouldSaveMetadata\<close> unset it returns
  \<open>OK\<close> and changes nothing. Otherwise the serialized node is put to the metadata store
  at \<open>version + 1\<close>; on success the version is \<open>version + 1\<close> (in 64-bit arithmetic),
  the flag is cleared and \<open>OK\<close> is returned; on \<open>ErrStalePut\<close>
  \<open>shouldReloadMetadata\<close> is set and \<open>EIO\<close> returned; on any other error \<open>EIO\<close>
  is returned and the node is as it was.
\<close>

theorem sync_behaviour:
  "(case BlobStoreWrapper_Put (Sum512 f) (Blobs f) (content (heap st node)) (blobs st) of
     (k, berr, bs) \<Rightarrow>
       (case sync_saveContent f st node of
          (r, st1) \<Rightarrow>
            (\<not> shouldSaveContent (heap st node) \<longrightarrow> r = None \<and> st1 = st) \<and>
            (shouldSaveContent (heap st node) \<and> berr \<noteq> None \<longrightarrow>
               r = Some EIO \<and> sync f st node = (EIO, st1) \<and>
               heap st1 node = (heap st node)\<lparr>contentKey := k\<rparr> \<and>
               blobs st1 = bs \<and> metadata st1 = metadata st) \<and>
            (shouldSaveContent (heap st node) \<and> berr = None \<longrightarrow>
               r = None \<and>
               heap st1 node = (heap st node)
                 \<lparr>contentKey := k, shouldSaveContent := False,
                  shouldSaveMetadata := (shouldSaveMetadata (heap st node) \<or> k \<noteq> contentKey (heap st node))\<rparr> \<and>
               blobs st1 = bs \<and> metadata st1 = metadata st) \<and>
            (r = None \<longrightarrow> sync f st node = sync_saveMetadata f st1 node))) \<and>
   (case VersionedStore_Put (Metadata f) (version (heap s node) + 1) (Key (heap s node))
          (serialize f (heap s) (heap s node)) (metadata s) of
     (merr, ms) \<Rightarrow>
       (case sync_saveMetadata f s node of
          (errno, s') \<Rightarrow>
            (\<not> shouldSaveMetadata (heap s node) \<longrightarrow> errno = OK \<and> s' = s) \<and>
            (shouldSaveMetadata (heap s node) \<longrightarrow>
               metadata s' = ms \<and> blobs s' = blobs s \<and>
               (merr = None \<longrightarrow>
                  errno = OK \<and>
                  heap s' node = (heap s node)\<lparr>version := version (heap s node) + 1,
                                               shouldSaveMetadata := False\<rparr> \<and>
                  unat (version (heap s' node)) = (unat (version (heap s node)) + 1) mod 2 ^ 64) \<and>
               (merr \<noteq> None \<and> errors_Is merr ErrStalePut \<longrightarrow>
                  errno = EIO \<and> heap s' node = (heap s node)\<lparr>shouldReloadMetadata := True\<rparr>) \<and>
               (merr \<noteq> None \<and> \<not> errors_Is merr ErrStalePut \<longrightarrow>
                  errno = EIO \<and> heap s' node = heap s node))))"
  apply (rule conjI)
  subgoal
    by (auto simp add: sync_saveContent_def sync_def Let_def heap_upd_node blobs_upd_node
        metadata_upd_node upd_node_def split: prod.splits)
  subgoal
    by (auto simp add: sync_saveMetadata_def saveMetadata_def Let_def heap_upd_node blobs_upd_node
        metadata_upd_node upd_node_def unat_word_ariths split: prod.splits)
  done

text \<open>
  The theorem at work: a file whose content is new is saved at version 1 with both flags
  cleared; a node behind the store is refused and marked for reload.
\<close>

theorem sync_behaviour_witness:
  "fst (sync factory0 st_file 0) = OK \<and>
   version (heap (snd (sync factory0 st_file 0)) 0) = 1 \<and>
   contentKey (heap (snd (sync factory0 st_file 0)) 0) = [2, 1] \<and>
   \<not> shouldSaveContent (heap (snd (sync factory0 st_file 0)) 0) \<and>
   \<not> shouldSaveMetadata (heap (snd (sync factory0 st_file 0)) 0) \<and>
   fst (sync factory0 st_behind 0) = EIO \<and>
   version (heap (snd (sync factory0 st_behind 0)) 0) = 0 \<and>
   shouldReloadMetadata (heap (snd (sync factory0 st_behind 0)) 0) \<and>
   shouldSaveMetadata (heap (snd (sync factory0 st_behind 0)) 0)"
  using sync_behaviour [where f = factory0 and st = st_file and node = 0
        and s = "snd (sync_saveContent factory0 st_file 0)"]
    sync_behaviour [where f = factory0 and st = st_behind and node = 0 and s = st_behind]
  by (simp add: sync_def sync_saveContent_def sync_saveMetadata_def saveMetadata_def
      BlobStoreWrapper_Put_def Let_def factory0_def st_file_def st_behind_def upd_node_def
      zero_CryptNode_def InMemoryStore_def InMemoryStore_Put_def InMemoryStore_Get_def
      VersionedWrapper_def VersionedWrapper_Put_def errors_Is_def NodeKeyLen_def
      length_PutUint64 Uint64_PutUint64_only)

subsection \<open>Setxattr\<close>

lemma saveMetadata_xattrs:
  "xattrs (heap (snd (saveMetadata f st node)) q) = xattrs (heap st q)"
  by (simp add: saveMetadata_def Let_def heap_upd_node split: prod.splits)

lemma sync_saveMetadata_xattrs:
  "xattrs (heap (snd (sync_saveMetadata f st node)) q) = xattrs (heap st q)"
  using saveMetadata_xattrs [of f st node q]
  by (auto simp add: sync_saveMetadata_def Let_def heap_upd_node split: prod.splits)

lemma sync_saveContent_xattrs:
  "xattrs (heap (snd (sync_saveContent f st node)) q) = xattrs (heap st q)"
  by (simp add: sync_saveContent_def Let_def heap_upd_node upd_node_def split: prod.splits)

lemma sync_xattrs: "xattrs (heap (snd (sync f st node)) q) = xattrs (heap st q)"
proof (cases "sync_saveContent f st node")
  case (Pair r st1)
  then have x: "xattrs (heap st1 q) = xattrs (heap st q)"
    using sync_saveContent_xattrs [of f st node q] by simp
  show ?thesis
  proof (cases r)
    case None
    with Pair x show ?thesis
      using sync_saveMetadata_xattrs [of f st1 node q] by (simp add: sync_def)
  next
    case (Some e)
    with Pair x show ?thesis by (simp add: sync_def)
  qed
qed

text \<open>
  Claim C7. With \<open>XATTR_CREATE\<close> and the attribute present \<open>Setxattr\<close> returns
  \<open>EEXIST\<close>, with \<open>XATTR_REPLACE\<close> and the attribute absent \<open>ENODATA\<close>, in both
  cases with the mapping of extended attributes as it was. In every other case
  \<open>Setxattr\<close> returns what \<open>sync\<close> returns on the node with the attribute set and
  \<open>shouldSaveMetadata\<close> raised; when that is not \<open>OK\<close> the mapping afterwards is
  the mapping before the call, and when it is \<open>OK\<close> it is that mapping with the
  attribute set.
\<close>

theorem Setxattr_flags_rollback:
  "(flags = XATTR_CREATE \<and> xattrs_map (heap st node) attr \<noteq> None \<longrightarrow>
      (\<exists>st'. Setxattr f st node attr data flags = Some (EEXIST, st') \<and>
             xattrs_map (heap st' node) = xattrs_map (heap st node))) \<and>
   (flags = XATTR_REPLACE \<and> xattrs_map (heap st node) attr = None \<longrightarrow>
      (\<exists>st'. Setxattr f st node attr data flags = Some (ENODATA, st') \<and>
             xattrs_map (heap st' node) = xattrs_map (heap st node))) \<and>
   (\<not> (flags = XATTR_CREATE \<and> xattrs_map (heap st node) attr \<noteq> None) \<and>
    \<not> (flags = XATTR_REPLACE \<and> xattrs_map (heap st node) attr = None) \<longrightarrow>
      (\<exists>st'. Setxattr f st node attr data flags =
               Some (fst (sync f (upd_node st node
                       (\<lambda>n. n\<lparr>xattrs := Some ((xattrs_map n)(attr \<mapsto> data)),
                              shouldSaveMetadata := True\<rparr>)) node), st') \<and>
             xattrs_map (heap st' node) =
               (if fst (sync f (upd_node st node
                       (\<lambda>n. n\<lparr>xattrs := Some ((xattrs_map n)(attr \<mapsto> data)),
                              shouldSaveMetadata := True\<rparr>)) node) \<noteq> OK
                then xattrs_map (heap st node)
                else (xattrs_map (heap st node))(attr \<mapsto> data))))"
proof -
  define st0 where "st0 = (if xattrs (heap st node) = None
                   then upd_node st node (\<lambda>n. n\<lparr>xattrs := Some Map.empty\<rparr>) else st)"
  define xa where "xa = xattrs_map (heap st node)"
  have xa0: "xattrs_map (heap st0 node) = xa"
    by (auto simp add: st0_def xa_def xattrs_map_def heap_upd_node)
  define st1 where "st1 = upd_node st0 node (\<lambda>n. n\<lparr>xattrs := Some (xa(attr \<mapsto> data)),
                                               shouldSaveMetadata := True\<rparr>)"
  have st1: "st1 = upd_node st node
                       (\<lambda>n. n\<lparr>xattrs := Some ((xattrs_map n)(attr \<mapsto> data)),
                              shouldSaveMetadata := True\<rparr>)"
    by (auto simp add: st1_def st0_def xa_def upd_node_def)
  obtain errno st2 where s: "sync f st1 node = (errno, st2)"
    by (cases "sync f st1 node")
  have x2: "xattrs (heap st2 node) = Some (xa(attr \<mapsto> data))"
    using sync_xattrs [of f st1 node node] s by (simp add: st1_def heap_upd_node)
  have unfold: "Setxattr f st node attr data flags =
     (if flags = XATTR_CREATE \<and> xa attr \<noteq> None then Some (EEXIST, st0)
      else if flags = XATTR_REPLACE \<and> xa attr = None then Some (ENODATA, st0)
      else if errno \<noteq> OK then
             (case xa attr of
                Some old \<Rightarrow> Some (errno, upd_node st2 node (\<lambda>n. n\<lparr>xattrs := Some (xa(attr \<mapsto> old))\<rparr>))
              | None \<Rightarrow> Some (errno, upd_node st2 node
                             (\<lambda>n. n\<lparr>xattrs := map_option (\<lambda>m. m(attr := None)) (xattrs n)\<rparr>)))
           else Some (errno, st2))"
    unfolding Setxattr_def Let_def st0_def [symmetric] xa0 st1_def [symmetric] s
    by (simp add: x2 split: option.splits)
  have r1: "xattrs_map (heap (upd_node st2 node
                (\<lambda>n. n\<lparr>xattrs := Some (xa(attr \<mapsto> old))\<rparr>)) node) = xa"
    if "xa attr = Some old" for old
    using that by (simp add: xattrs_map_def heap_upd_node fun_upd_idem)
  have r2: "xattrs_map (heap (upd_node st2 node
                (\<lambda>n. n\<lparr>xattrs := map_option (\<lambda>m. m(attr := None)) (xattrs n)\<rparr>)) node) = xa"
    if "xa attr = None"
    using that by (simp add: xattrs_map_def heap_upd_node x2 fun_upd_idem)
  have r3: "xattrs_map (heap st2 node) = xa(attr \<mapsto> data)"
    by (simp add: xattrs_map_def x2)
  show ?thesis
    unfolding st1 [symmetric] s xa_def [symmetric]
    apply (simp only: unfold)
    apply (cases "xa attr")
     apply (simp_all add: xa0 r1 r2 r3)
    done
qed

text \<open>
  The theorem at work on a node with the attribute \<open>user.a\<close>: the two flag errors,
  and a new attribute \<open>user.b\<close> taken back when the metadata store refuses the put.
\<close>

theorem Setxattr_flags_rollback_witness:
  "map_option fst (Setxattr factory0 st_file 0 ''user.a'' [5] XATTR_CREATE) = Some EEXIST \<and>
   map_option fst (Setxattr factory0 st_file 0 ''user.b'' [5] XATTR_REPLACE) = Some ENODATA \<and>
   map_option fst (Setxattr factory_failing st_file 0 ''user.b'' [5] 0) = Some EIO \<and>
   map_option (\<lambda>r. xattrs_map (heap (snd r) 0)) (Setxattr factory_failing st_file 0 ''user.b'' [5] 0)
     = Some [''user.a'' \<mapsto> [9]]"
proof -
  have x: "xattrs_map (heap st_file 0) = [''user.a'' \<mapsto> [9]]"
    by (simp add: st_file_def xattrs_map_def)
  have h1: "XATTR_CREATE = XATTR_CREATE \<and> xattrs_map (heap st_file 0) ''user.a'' \<noteq> None"
    by (simp add: x)
  have h2: "XATTR_REPLACE = XATTR_REPLACE \<and> xattrs_map (heap st_file 0) ''user.b'' = None"
    by (simp add: x)
  have h3: "\<not> ((0::32 word) = XATTR_CREATE \<and> xattrs_map (heap st_file 0) ''user.b'' \<noteq> None) \<and>
            \<not> ((0::32 word) = XATTR_REPLACE \<and> xattrs_map (heap st_file 0) ''user.b'' = None)"
    by (simp add: XATTR_CREATE_def XATTR_REPLACE_def)
  have e: "fst (sync factory_failing (upd_node st_file 0
                       (\<lambda>n. n\<lparr>xattrs := Some ((xattrs_map n)(''user.b'' \<mapsto> [5])),
                              shouldSaveMetadata := True\<rparr>)) 0) = EIO"
    by (simp add: sync_def sync_saveContent_def sync_saveMetadata_def saveMetadata_def
        BlobStoreWrapper_Put_def Let_def factory0_def factory_failing_def st_file_def
        upd_node_def zero_CryptNode_def InMemoryStore_def InMemoryStore_Put_def errors_Is_def)
  from Setxattr_flags_rollback [where flags = XATTR_CREATE and st = st_file and node = 0
        and attr = "''user.a''" and f = factory0 and data = "[5]"] h1
  have c1: "map_option fst (Setxattr factory0 st_file 0 ''user.a'' [5] XATTR_CREATE) = Some EEXIST"
    by auto
  from Setxattr_flags_rollback [where flags = XATTR_REPLACE and st = st_file and node = 0
        and attr = "''user.b''" and f = factory0 and data = "[5]"] h2
  have c2: "map_option fst (Setxattr factory0 st_file 0 ''user.b'' [5] XATTR_REPLACE) = Some ENODATA"
    by auto
  from Setxattr_flags_rollback [where flags = 0 and st = st_file and node = 0
        and attr = "''user.b''" and f = factory_failing and data = "[5]"] h3
  obtain st' where
    "Setxattr factory_failing st_file 0 ''user.b'' [5] 0 =
       Some (fst (sync factory_failing (upd_node st_file 0
                       (\<lambda>n. n\<lparr>xattrs := Some ((xattrs_map n)(''user.b'' \<mapsto> [5])),
                              shouldSaveMetadata := True\<rparr>)) 0), st')"
    and "xattrs_map (heap st' 0) =
           (if fst (sync factory_failing (upd_node st_file 0
                       (\<lambda>n. n\<lparr>xattrs := Some ((xattrs_map n)(''user.b'' \<mapsto> [5])),
                              shouldSaveMetadata := True\<rparr>)) 0) \<noteq> OK
            then xattrs_map (heap st_file 0)
            else (xattrs_map (heap st_file 0))(''user.b'' \<mapsto> [5]))"
    by blast
  then have c3: "Setxattr factory_failing st_file 0 ''user.b'' [5] 0 = Some (EIO, st')"
    and c4: "xattrs_map (heap st' 0) = [''user.a'' \<mapsto> [9]]"
    by (simp_all add: e x)
  show ?thesis
    by (simp add: c1 c2 c3 c4)
qed

section \<open>Properties of the message codec\<close>

subsection \<open>Lengths and big-endian round trips\<close>

lemma length_bits_Put16: "length (bits_Put16 v) = 2"
  by (simp add: bits_Put16_def)

lemma length_bits_Put64: "length (bits_Put64 v) = 8"
  by (simp add: bits_Put64_def PutUint64_def)

lemma length_bits_Puts: "length (bits_Puts s) = 2 + length s"
  by (simp add: bits_Puts_def bits_Putb_def bits_Put16_def bytes_of_string_def)

subsection \<open>The encoder writes the wire layout\<close>

lemma holds_makeroom:
  "holds e pre \<Longrightarrow>
     holds (makeroom e required) pre \<and> required \<le> length (enc_buf (makeroom e required))"
  by (auto simp add: holds_def makeroom_def)

lemma holds_put:
  assumes "holds e pre" and "length pre + length data \<le> length (enc_buf e)"
  shows "\<exists>e'. Encoder_put e data = Some e' \<and> holds e' (pre @ data) \<and>
              length (enc_buf e') = length (enc_buf e)"
  using assms
  by (auto simp add: holds_def Encoder_put_def poke_def)

lemma holds_puts_after_makeroom:
  assumes "holds e pre" and "length pre + 2 + length s \<le> required"
  shows "\<exists>e'. Encoder_puts (makeroom e required) s = Some e' \<and> holds e' (pre @ bits_Puts s) \<and>
              required \<le> length (enc_buf e')"
proof -
  from holds_makeroom [OF assms(1), of required]
  have h: "holds (makeroom e required) pre" and l: "required \<le> length (enc_buf (makeroom e required))"
    by simp_all
  from assms(2) l have "length pre + length (bits_Puts s) \<le> length (enc_buf (makeroom e required))"
    by (simp add: length_bits_Puts)
  from holds_put [OF h this] l show ?thesis
    by (auto simp add: Encoder_puts_def)
qed

lemma Encode_body_holds:
  assumes h: "holds e pre"
    and k: "msg_kind m = KindGet \<or> msg_kind m = KindPut \<or> msg_kind m = KindError \<or> msg_kind m = KindAuth"
  shows "\<exists>e'. Encode_body e m = Some (Inr e') \<and>
              holds e' (pre @ (if msg_kind m = KindGet then bits_Puts (msg_key m)
                               else if msg_kind m = KindPut
                                 then bits_Puts (msg_key m) @ bits_Puts (msg_value m) @
                                      bits_Put64 (msg_version m)
                               else bits_Puts (msg_value m)))"
proof -
  from h have off: "enc_off e = length pre"
    by (simp add: holds_def)
  consider (get) "msg_kind m = KindGet"
    | (put) "msg_kind m = KindPut"
    | (other) "msg_kind m \<noteq> KindGet" "msg_kind m \<noteq> KindPut"
              "msg_kind m = KindError \<or> msg_kind m = KindAuth"
    using k by blast
  then show ?thesis
  proof cases
    case get
    from holds_puts_after_makeroom [OF h, of "msg_key m" "enc_off e + 2 + length (msg_key m)"] off
    show ?thesis
      by (auto simp add: Encode_body_def get)
  next
    case put
    have np: "KindPut \<noteq> KindGet"
      by (simp add: KindPut_def KindGet_def)
    from holds_puts_after_makeroom [OF h, of "msg_key m"
        "enc_off e + 12 + length (msg_key m) + length (msg_value m)"] off
    obtain e1 where e1: "Encoder_puts (makeroom e (enc_off e + 12 + length (msg_key m) +
                            length (msg_value m))) (msg_key m) = Some e1"
      and h1: "holds e1 (pre @ bits_Puts (msg_key m))"
      and l1: "length pre + 12 + length (msg_key m) + length (msg_value m) \<le> length (enc_buf e1)"
      by auto
    from l1 have "length (pre @ bits_Puts (msg_key m)) + length (bits_Puts (msg_value m))
                    \<le> length (enc_buf e1)"
      by (simp add: length_bits_Puts)
    from holds_put [OF h1 this]
    obtain e2 where e2: "Encoder_puts e1 (msg_value m) = Some e2"
      and h2: "holds e2 ((pre @ bits_Puts (msg_key m)) @ bits_Puts (msg_value m))"
      and l2: "length (enc_buf e2) = length (enc_buf e1)"
      by (auto simp add: Encoder_puts_def)
    from l1 l2 have "length ((pre @ bits_Puts (msg_key m)) @ bits_Puts (msg_value m)) +
                       length (bits_Put64 (msg_version m)) \<le> length (enc_buf e2)"
      by (simp add: length_bits_Puts length_bits_Put64)
    from holds_put [OF h2 this]
    obtain e3 where e3: "Encoder_put64 e2 (msg_version m) = Some e3"
      and h3: "holds e3 (((pre @ bits_Puts (msg_key m)) @ bits_Puts (msg_value m)) @
                          bits_Put64 (msg_version m))"
      by (auto simp add: Encoder_put64_def)
    from e1 e2 e3 h3 show ?thesis
      by (simp add: Encode_body_def put np)
  next
    case other
    from holds_puts_after_makeroom [OF h, of "msg_value m" "enc_off e + 2 + length (msg_value m)"] off
    show ?thesis
      using other by (auto simp add: Encode_body_def)
  qed
qed

lemma Encode_Buffer_Writer:
  assumes k: "msg_kind m = KindGet \<or> msg_kind m = KindPut \<or> msg_kind m = KindError \<or> msg_kind m = KindAuth"
  shows "\<exists>e'. Encode Buffer_Writer e m w = Some (None, e', w @ wire_layout m)"
proof -
  have h0: "holds (e\<lparr>enc_off := 0\<rparr>) []"
    by (simp add: holds_def)
  from holds_makeroom [OF h0, of 3]
  have hm: "holds (makeroom (e\<lparr>enc_off := 0\<rparr>) 3) []"
    and lm: "3 \<le> length (enc_buf (makeroom (e\<lparr>enc_off := 0\<rparr>) 3))"
    by simp_all
  from lm have "length ([]::bytes) + length (bits_Put8 (msg_kind m))
                  \<le> length (enc_buf (makeroom (e\<lparr>enc_off := 0\<rparr>) 3))"
    by (simp add: bits_Put8_def)
  from holds_put [OF hm this]
  obtain e1 where e1: "Encoder_put8 (makeroom (e\<lparr>enc_off := 0\<rparr>) 3) (msg_kind m) = Some e1"
    and h1: "holds e1 ([] @ bits_Put8 (msg_kind m))"
    and l1: "length (enc_buf e1) = length (enc_buf (makeroom (e\<lparr>enc_off := 0\<rparr>) 3))"
    by (auto simp add: Encoder_put8_def)
  from lm l1 have "length ([] @ bits_Put8 (msg_kind m)) + length (bits_Put16 (msg_tag m))
                     \<le> length (enc_buf e1)"
    by (simp add: bits_Put8_def length_bits_Put16)
  from holds_put [OF h1 this]
  obtain e2 where e2: "Encoder_put16 e1 (msg_tag m) = Some e2"
    and h2: "holds e2 (([] @ bits_Put8 (msg_kind m)) @ bits_Put16 (msg_tag m))"
    by (auto simp add: Encoder_put16_def)
  from Encode_body_holds [OF h2 k]
  obtain e3 where e3: "Encode_body e2 m = Some (Inr e3)"
    and h3: "holds e3 (wire_layout m)"
    by (auto simp add: wire_layout_def)
  from h3 have "\<not> length (enc_buf e3) < enc_off e3"
    and "take (enc_off e3) (enc_buf e3) = wire_layout m"
    and "enc_off e3 = length (wire_layout m)"
    by (simp_all add: holds_def)
  with e1 e2 e3 show ?thesis
    by (simp add: Encode_def Buffer_Writer_def)
qed

subsection \<open>The decoder reads the wire layout\<close>

lemma be_word_byte: "be_word [v] = (v :: 8 word)"
  by (simp add: be_word_def)

lemma be_word_bits_Put16: "be_word (bits_Put16 v) = v"
  unfolding bits_Put16_def be_word_def
  apply simp
  apply (rule bit_word_eqI)
  apply (simp add: bit_simps less_diff_conv2 cong: conj_cong)
  apply (case_tac "bit v n")
   apply simp_all
  apply linarith
  done

lemma be_word_bits_Put64: "be_word (bits_Put64 v) = v"
  using Uint64_PutUint64_only [of v]
  by (simp add: Uint64_def bits_Put64_def length_PutUint64)

lemma bits_Get8_Put8: "bits_Get8 (bits_Put8 v @ rest) = Some (v, rest)"
  by (simp add: bits_Get8_def bits_Put8_def be_word_byte)

lemma bits_Get16_Put16: "bits_Get16 (bits_Put16 v @ rest) = Some (v, rest)"
  by (simp add: bits_Get16_def length_bits_Put16 be_word_bits_Put16)

lemma bits_Get64_Put64: "bits_Get64 (bits_Put64 v @ rest) = Some (v, rest)"
  by (simp add: bits_Get64_def length_bits_Put64 be_word_bits_Put64)

lemma string_of_bytes_of_string: "string_of_bytes (bytes_of_string s) = s"
proof -
  have "char_of (unat (of_nat (of_char c) :: 8 word)) = c" for c
    by (simp add: unat_of_nat)
  then show ?thesis
    by (simp add: string_of_bytes_def bytes_of_string_def comp_def map_idI)
qed

lemma length_bytes_of_string: "length (bytes_of_string s) = length s"
  by (simp add: bytes_of_string_def)

lemma Decoder_read_Buffer_Reader:
  assumes "dec_err d = None" and "unat n \<le> length r"
  shows "Decoder_read Buffer_Reader d n r =
     Some (\<lparr>dec_buf = take (unat n) r @
                       drop (unat n)
                         (if int (length (dec_buf d)) - int (dec_off d) < int (unat n)
                          then dec_buf d @ replicate (dec_off d + unat n - length (dec_buf d)) 0
                          else dec_buf d),
            dec_off = 0, dec_err = None\<rparr>, drop (unat n) r)"
proof -
  have g: "\<not> int (length (dec_buf d)) - int (dec_off d) < int (unat n) \<Longrightarrow>
             \<not> length (dec_buf d) < unat n"
    by linarith
  show ?thesis
    using assms g
    by (auto simp add: Decoder_read_def Buffer_Reader_def Let_def min_def)
qed

lemma Decoder_get8_at:
  assumes "dec_buf d = pre @ bits_Put8 v @ post" and "dec_off d = length pre"
  shows "Decoder_get8 d = Some (v, d\<lparr>dec_off := length pre + 1\<rparr>)"
  using assms by (simp add: Decoder_get8_def bits_Get8_Put8)

lemma Decoder_get16_at:
  assumes "dec_buf d = pre @ bits_Put16 v @ post" and "dec_off d = length pre"
  shows "Decoder_get16 d = Some (v, d\<lparr>dec_off := length pre + 2\<rparr>)"
  using assms by (simp add: Decoder_get16_def bits_Get16_Put16)

lemma Decoder_get64_at:
  assumes "dec_buf d = pre @ bits_Put64 v @ post" and "dec_off d = length pre"
  shows "Decoder_get64 d = Some (v, d\<lparr>dec_off := length pre + 8\<rparr>)"
  using assms by (simp add: Decoder_get64_def bits_Get64_Put64)

lemma Decoder_gets_at:
  assumes "dec_buf d = pre @ bytes_of_string s @ post" and "dec_off d = length pre"
    and "unat n = length s"
  shows "Decoder_gets d n = Some (s, d\<lparr>dec_off := length pre + length s\<rparr>)"
  using assms
  by (simp add: Decoder_gets_def length_bytes_of_string string_of_bytes_of_string)

lemma length_bits_Put8: "length (bits_Put8 v) = 1"
  by (simp add: bits_Put8_def)

lemma unat_of_nat_16: "n < 65536 \<Longrightarrow> unat (of_nat n :: 16 word) = n"
  by (simp add: unat_of_nat)

lemma bits_Puts_split: "bits_Puts s = bits_Put16 (of_nat (length s)) @ bytes_of_string s"
  by (simp add: bits_Puts_def bits_Putb_def length_bytes_of_string)

text \<open>
  The header: the kind, the tag and the first length, read as five bytes. What follows
  them in the buffer is what the decoder's buffer held beyond its fifth byte.
\<close>

lemma Decode_header:
  "Decode Buffer_Reader d m0 (bits_Put8 k @ bits_Put16 t @ bits_Put16 l @ rest) =
     do {
       (m', d4, r4) \<leftarrow>
         Decode_body Buffer_Reader
           \<lparr>dec_buf = bits_Put8 k @ bits_Put16 t @ bits_Put16 l @
                       drop 5 (if int (length (dec_buf d)) - int (dec_off d) < 5
                               then dec_buf d @ replicate (dec_off d + 5 - length (dec_buf d)) 0
                               else dec_buf d),
            dec_off = 3, dec_err = None\<rparr>
           (m0\<lparr>msg_kind := k, msg_tag := t\<rparr>) rest;
       Some (dec_err d4, m', d4, r4)
     }"
proof -
  let ?s = "bits_Put8 k @ bits_Put16 t @ bits_Put16 l @ rest"
  let ?B = "drop 5 (if int (length (dec_buf d)) - int (dec_off d) < 5
                    then dec_buf d @ replicate (dec_off d + 5 - length (dec_buf d)) 0
                    else dec_buf d)"
  let ?b = "bits_Put8 k @ bits_Put16 t @ bits_Put16 l @ ?B"
  have len: "unat (5 :: 16 word) \<le> length ?s"
    by (simp add: length_bits_Put8 length_bits_Put16)
  from Decoder_read_Buffer_Reader [of "d\<lparr>dec_err := None\<rparr>" 5 ?s] len
  have r: "Decoder_read Buffer_Reader (d\<lparr>dec_err := None\<rparr>) 5 ?s =
      Some (\<lparr>dec_buf = ?b, dec_off = 0, dec_err = None\<rparr>, rest)"
    by (simp add: length_bits_Put8 length_bits_Put16)
  have g8: "Decoder_get8 \<lparr>dec_buf = ?b, dec_off = 0, dec_err = None\<rparr> =
      Some (k, \<lparr>dec_buf = ?b, dec_off = 1, dec_err = None\<rparr>)"
    using Decoder_get8_at [of "\<lparr>dec_buf = ?b, dec_off = 0, dec_err = None\<rparr>" "[]" k
        "bits_Put16 t @ bits_Put16 l @ ?B"]
    by simp
  have g16: "Decoder_get16 \<lparr>dec_buf = ?b, dec_off = 1, dec_err = None\<rparr> =
      Some (t, \<lparr>dec_buf = ?b, dec_off = 3, dec_err = None\<rparr>)"
    using Decoder_get16_at [of "\<lparr>dec_buf = ?b, dec_off = 1, dec_err = None\<rparr>" "bits_Put8 k" t
        "bits_Put16 l @ ?B"]
    by (simp add: length_bits_Put8)
  show ?thesis
    by (simp only: Decode_def r g8 g16 bind.bind_lunit prod.case)
qed

lemma unat_of_nat_16_plus:
  "n + c < 65536 \<Longrightarrow> unat ((of_nat n :: 16 word) + of_nat c) = n + c"
  using unat_of_nat_16 [of "n + c"] by simp

lemma Decoder_read_prefix:
  assumes "dec_err d = None" and "unat n = length x"
  shows "\<exists>B. Decoder_read Buffer_Reader d n (x @ rest) =
              Some (\<lparr>dec_buf = x @ B, dec_off = 0, dec_err = None\<rparr>, rest)"
  using Decoder_read_Buffer_Reader [of d n "x @ rest"] assms
  by simp

lemma Decode_body_Get:
  assumes "length key < 65536" and "msg_kind m = KindGet"
  shows "\<exists>d'. Decode_body Buffer_Reader
                 \<lparr>dec_buf = bits_Put8 k @ bits_Put16 t @ bits_Put16 (of_nat (length key)) @ B,
                  dec_off = 3, dec_err = None\<rparr>
                 m (bytes_of_string key @ rest) =
               Some (m\<lparr>msg_key := key\<rparr>, d', rest) \<and> dec_err d' = None"
proof -
  let ?l = "of_nat (length key) :: 16 word"
  let ?b = "bits_Put8 k @ bits_Put16 t @ bits_Put16 ?l @ B"
  have ul: "unat ?l = length (bytes_of_string key)"
    using assms(1) by (simp add: unat_of_nat_16 length_bytes_of_string)
  have g16: "Decoder_get16 \<lparr>dec_buf = ?b, dec_off = 3, dec_err = None\<rparr> =
      Some (?l, \<lparr>dec_buf = ?b, dec_off = 5, dec_err = None\<rparr>)"
    using Decoder_get16_at [of "\<lparr>dec_buf = ?b, dec_off = 3, dec_err = None\<rparr>"
        "bits_Put8 k @ bits_Put16 t" ?l B]
    by (simp add: length_bits_Put8 length_bits_Put16)
  from Decoder_read_prefix [of "\<lparr>dec_buf = ?b, dec_off = 5, dec_err = None\<rparr>" ?l
      "bytes_of_string key" rest] ul
  obtain B' where rd: "Decoder_read Buffer_Reader \<lparr>dec_buf = ?b, dec_off = 5, dec_err = None\<rparr> ?l
        (bytes_of_string key @ rest) =
      Some (\<lparr>dec_buf = bytes_of_string key @ B', dec_off = 0, dec_err = None\<rparr>, rest)"
    by auto
  have gs: "Decoder_gets \<lparr>dec_buf = bytes_of_string key @ B', dec_off = 0, dec_err = None\<rparr> ?l =
      Some (key, \<lparr>dec_buf = bytes_of_string key @ B', dec_off = length key, dec_err = None\<rparr>)"
    using Decoder_gets_at [of "\<lparr>dec_buf = bytes_of_string key @ B', dec_off = 0, dec_err = None\<rparr>"
        "[]" key B' ?l] ul
    by (simp add: length_bytes_of_string)
  have kk: "(msg_kind m = KindGet) = True"
    using assms(2) by simp
  show ?thesis
    by (simp only: Decode_body_def kk if_True g16 rd gs bind.bind_lunit prod.case) simp
qed

lemma Decode_body_AuthError:
  assumes "length val < 65536" and "msg_kind m = KindAuth \<or> msg_kind m = KindError"
  shows "\<exists>d'. Decode_body Buffer_Reader
                 \<lparr>dec_buf = bits_Put8 k @ bits_Put16 t @ bits_Put16 (of_nat (length val)) @ B,
                  dec_off = 3, dec_err = None\<rparr>
                 m (bytes_of_string val @ rest) =
               Some (m\<lparr>msg_value := val\<rparr>, d', rest) \<and> dec_err d' = None"
proof -
  let ?l = "of_nat (length val) :: 16 word"
  let ?b = "bits_Put8 k @ bits_Put16 t @ bits_Put16 ?l @ B"
  have kk: "(msg_kind m = KindGet) = False" "(msg_kind m = KindPut) = False"
    "(msg_kind m = KindAuth \<or> msg_kind m = KindError) = True"
    using assms(2) by (auto simp add: KindGet_def KindPut_def KindAuth_def KindError_def)
  have ul: "unat ?l = length (bytes_of_string val)"
    using assms(1) by (simp add: unat_of_nat_16 length_bytes_of_string)
  have g16: "Decoder_get16 \<lparr>dec_buf = ?b, dec_off = 3, dec_err = None\<rparr> =
      Some (?l, \<lparr>dec_buf = ?b, dec_off = 5, dec_err = None\<rparr>)"
    using Decoder_get16_at [of "\<lparr>dec_buf = ?b, dec_off = 3, dec_err = None\<rparr>"
        "bits_Put8 k @ bits_Put16 t" ?l B]
    by (simp add: length_bits_Put8 length_bits_Put16)
  from Decoder_read_prefix [of "\<lparr>dec_buf = ?b, dec_off = 5, dec_err = None\<rparr>" ?l
      "bytes_of_string val" rest] ul
  obtain B' where rd: "Decoder_read Buffer_Reader \<lparr>dec_buf = ?b, dec_off = 5, dec_err = None\<rparr> ?l
        (bytes_of_string val @ rest) =
      Some (\<lparr>dec_buf = bytes_of_string val @ B', dec_off = 0, dec_err = None\<rparr>, rest)"
    by auto
  have gs: "Decoder_gets \<lparr>dec_buf = bytes_of_string val @ B', dec_off = 0, dec_err = None\<rparr> ?l =
      Some (val, \<lparr>dec_buf = bytes_of_string val @ B', dec_off = length val, dec_err = None\<rparr>)"
    using Decoder_gets_at [of "\<lparr>dec_buf = bytes_of_string val @ B', dec_off = 0, dec_err = None\<rparr>"
        "[]" val B' ?l] ul
    by (simp add: length_bytes_of_string)
  show ?thesis
    by (simp only: Decode_body_def kk if_True if_False g16 rd gs bind.bind_lunit prod.case)
       simp
qed

lemma Decode_body_Put:
  assumes "length key + 2 < 65536" and "length val + 8 < 65536" and "msg_kind m = KindPut"
  shows "\<exists>d'. Decode_body Buffer_Reader
                 \<lparr>dec_buf = bits_Put8 k @ bits_Put16 t @ bits_Put16 (of_nat (length key)) @ B,
                  dec_off = 3, dec_err = None\<rparr>
                 m (bytes_of_string key @ bits_Put16 (of_nat (length val)) @
                    bytes_of_string val @ bits_Put64 ver @ rest) =
               Some (m\<lparr>msg_key := key, msg_value := val, msg_version := ver\<rparr>, d', rest) \<and>
               dec_err d' = None"
proof -
  let ?l = "of_nat (length key) :: 16 word"
  let ?l2 = "of_nat (length val) :: 16 word"
  let ?b = "bits_Put8 k @ bits_Put16 t @ bits_Put16 ?l @ B"
  let ?x = "bytes_of_string key @ bits_Put16 ?l2"
  let ?y = "bytes_of_string val @ bits_Put64 ver"
  have kk: "(msg_kind m = KindGet) = False" "(msg_kind m = KindPut) = True"
    using assms(3) by (simp_all add: KindGet_def KindPut_def)
  have ul: "unat ?l = length key" and ul2: "unat ?l2 = length val"
    using assms(1,2) by (simp_all add: unat_of_nat_16)
  have ux: "unat (?l + 2) = length ?x"
    using unat_of_nat_16_plus [of "length key" 2] assms(1)
    by (simp add: length_bytes_of_string length_bits_Put16)
  have uy: "unat (?l2 + 8) = length ?y"
    using unat_of_nat_16_plus [of "length val" 8] assms(2)
    by (simp add: length_bytes_of_string length_bits_Put64)
  have g16: "Decoder_get16 \<lparr>dec_buf = ?b, dec_off = 3, dec_err = None\<rparr> =
      Some (?l, \<lparr>dec_buf = ?b, dec_off = 5, dec_err = None\<rparr>)"
    using Decoder_get16_at [of "\<lparr>dec_buf = ?b, dec_off = 3, dec_err = None\<rparr>"
        "bits_Put8 k @ bits_Put16 t" ?l B]
    by (simp add: length_bits_Put8 length_bits_Put16)
  from Decoder_read_prefix [of "\<lparr>dec_buf = ?b, dec_off = 5, dec_err = None\<rparr>" "?l + 2"
      ?x "?y @ rest"] ux
  obtain B' where rd: "Decoder_read Buffer_Reader \<lparr>dec_buf = ?b, dec_off = 5, dec_err = None\<rparr> (?l + 2)
        (bytes_of_string key @ bits_Put16 ?l2 @ bytes_of_string val @ bits_Put64 ver @ rest) =
      Some (\<lparr>dec_buf = bytes_of_string key @ bits_Put16 ?l2 @ B', dec_off = 0, dec_err = None\<rparr>,
            bytes_of_string val @ bits_Put64 ver @ rest)"
    by auto
  let ?b1 = "bytes_of_string key @ bits_Put16 ?l2 @ B'"
  have gs: "Decoder_gets \<lparr>dec_buf = ?b1, dec_off = 0, dec_err = None\<rparr> ?l =
      Some (key, \<lparr>dec_buf = ?b1, dec_off = length key, dec_err = None\<rparr>)"
    using Decoder_gets_at [of "\<lparr>dec_buf = ?b1, dec_off = 0, dec_err = None\<rparr>"
        "[]" key "bits_Put16 ?l2 @ B'" ?l] ul
    by simp
  have g16': "Decoder_get16 \<lparr>dec_buf = ?b1, dec_off = length key, dec_err = None\<rparr> =
      Some (?l2, \<lparr>dec_buf = ?b1, dec_off = length key + 2, dec_err = None\<rparr>)"
    using Decoder_get16_at [of "\<lparr>dec_buf = ?b1, dec_off = length key, dec_err = None\<rparr>"
        "bytes_of_string key" ?l2 B']
    by (simp add: length_bytes_of_string)
  from Decoder_read_prefix [of "\<lparr>dec_buf = ?b1, dec_off = length key + 2, dec_err = None\<rparr>"
      "?l2 + 8" ?y rest] uy
  obtain B'' where rd': "Decoder_read Buffer_Reader
        \<lparr>dec_buf = ?b1, dec_off = length key + 2, dec_err = None\<rparr> (?l2 + 8)
        (bytes_of_string val @ bits_Put64 ver @ rest) =
      Some (\<lparr>dec_buf = bytes_of_string val @ bits_Put64 ver @ B'', dec_off = 0, dec_err = None\<rparr>,
            rest)"
    by auto
  let ?b2 = "bytes_of_string val @ bits_Put64 ver @ B''"
  have gs': "Decoder_gets \<lparr>dec_buf = ?b2, dec_off = 0, dec_err = None\<rparr> ?l2 =
      Some (val, \<lparr>dec_buf = ?b2, dec_off = length val, dec_err = None\<rparr>)"
    using Decoder_gets_at [of "\<lparr>dec_buf = ?b2, dec_off = 0, dec_err = None\<rparr>"
        "[]" val "bits_Put64 ver @ B''" ?l2] ul2
    by simp
  have g64: "Decoder_get64 \<lparr>dec_buf = ?b2, dec_off = length val, dec_err = None\<rparr> =
      Some (ver, \<lparr>dec_buf = ?b2, dec_off = length val + 8, dec_err = None\<rparr>)"
    using Decoder_get64_at [of "\<lparr>dec_buf = ?b2, dec_off = length val, dec_err = None\<rparr>"
        "bytes_of_string val" ver B'']
    by (simp add: length_bytes_of_string)
  show ?thesis
    by (simp only: Decode_body_def kk if_True if_False g16 rd gs g16' rd' gs' g64
        bind.bind_lunit prod.case) simp
qed

lemma wire_layout_Get:
  "wire_layout (NewGetMessage tag key) =
     bits_Put8 KindGet @ bits_Put16 tag @ bits_Put16 (of_nat (length key)) @ bytes_of_string key"
  by (simp add: wire_layout_def NewGetMessage_def bits_Puts_split)

lemma wire_layout_Put:
  "wire_layout (NewPutMessage tag key val ver) =
     bits_Put8 KindPut @ bits_Put16 tag @ bits_Put16 (of_nat (length key)) @ bytes_of_string key @
     bits_Put16 (of_nat (length val)) @ bytes_of_string val @ bits_Put64 ver"
  by (simp add: wire_layout_def NewPutMessage_def bits_Puts_split KindPut_def KindGet_def)

lemma wire_layout_Error:
  "wire_layout (NewErrorMessage tag text) =
     bits_Put8 KindError @ bits_Put16 tag @ bits_Put16 (of_nat (length text)) @ bytes_of_string text"
  by (simp add: wire_layout_def NewErrorMessage_def bits_Puts_split KindPut_def KindGet_def
      KindError_def)

lemma wire_layout_Auth:
  "wire_layout (NewAuthMessage tag password) =
     bits_Put8 KindAuth @ bits_Put16 tag @ bits_Put16 (of_nat (length password)) @
     bytes_of_string password"
  by (simp add: wire_layout_def NewAuthMessage_def bits_Puts_split KindPut_def KindGet_def
      KindAuth_def)

text \<open>
  Decoding what the encoder wrote, with any decoder and into any message: a GET, ERROR
  or AUTH message whose string is at most 65535 bytes long, and a PUT message whose key
  is at most 65533 and whose value at most 65527 bytes long, are read back, and the
  reader is left at the bytes that follow.
\<close>

lemma Decode_Get:
  assumes "length key < 65536"
  shows "\<exists>d'. Decode Buffer_Reader d m0 (wire_layout (NewGetMessage tag key) @ rest) =
              Some (None, m0\<lparr>msg_kind := KindGet, msg_tag := tag, msg_key := key\<rparr>, d', rest)"
proof -
  from Decode_body_Get [OF assms, of "m0\<lparr>msg_kind := KindGet, msg_tag := tag\<rparr>" KindGet tag _ rest]
  show ?thesis
    unfolding wire_layout_Get append_assoc Decode_header
    by (auto simp add: bind_eq_Some_conv)
qed

lemma Decode_Put:
  assumes "length key + 2 < 65536" and "length val + 8 < 65536"
  shows "\<exists>d'. Decode Buffer_Reader d m0 (wire_layout (NewPutMessage tag key val ver) @ rest) =
              Some (None, m0\<lparr>msg_kind := KindPut, msg_tag := tag, msg_key := key,
                             msg_value := val, msg_version := ver\<rparr>, d', rest)"
proof -
  from Decode_body_Put [OF assms, of "m0\<lparr>msg_kind := KindPut, msg_tag := tag\<rparr>" KindPut tag _
      ver rest]
  show ?thesis
    unfolding wire_layout_Put append_assoc Decode_header
    by (auto simp add: bind_eq_Some_conv)
qed

lemma Decode_Error:
  assumes "length text < 65536"
  shows "\<exists>d'. Decode Buffer_Reader d m0 (wire_layout (NewErrorMessage tag text) @ rest) =
              Some (None, m0\<lparr>msg_kind := KindError, msg_tag := tag, msg_value := text\<rparr>, d', rest)"
proof -
  from Decode_body_AuthError [OF assms, of "m0\<lparr>msg_kind := KindError, msg_tag := tag\<rparr>"
      KindError tag _ rest]
  show ?thesis
    unfolding wire_layout_Error append_assoc Decode_header
    by (auto simp add: bind_eq_Some_conv)
qed

lemma Decode_Auth:
  assumes "length password < 65536"
  shows "\<exists>d'. Decode Buffer_Reader d m0 (wire_layout (NewAuthMessage tag password) @ rest) =
              Some (None, m0\<lparr>msg_kind := KindAuth, msg_tag := tag, msg_value := password\<rparr>, d', rest)"
proof -
  from Decode_body_AuthError [OF assms, of "m0\<lparr>msg_kind := KindAuth, msg_tag := tag\<rparr>"
      KindAuth tag _ rest]
  show ?thesis
    unfolding wire_layout_Auth append_assoc Decode_header
    by (auto simp add: bind_eq_Some_conv)
qed

subsection \<open>The round trip\<close>

lemma packUnpack_Encode:
  assumes "msg_kind m = KindGet \<or> msg_kind m = KindPut \<or> msg_kind m = KindError \<or> msg_kind m = KindAuth"
  shows "packUnpack m =
     do {
       (err2, out, d, buf') \<leftarrow>
         Decode Buffer_Reader \<lparr>dec_buf = [], dec_off = 0, dec_err = None\<rparr>
           \<lparr>msg_kind = 0, msg_tag = 0, msg_key = [], msg_value = [], msg_version = 0\<rparr>
           (wire_layout m @ []);
       Some (None, err2, out)
     }"
proof -
  from Encode_Buffer_Writer [OF assms, of "\<lparr>enc_buf = [], enc_off = 0\<rparr>" "[]"]
  obtain e' where "Encode Buffer_Writer \<lparr>enc_buf = [], enc_off = 0\<rparr> m [] =
      Some (None, e', wire_layout m)"
    by auto
  then show ?thesis
    by (simp add: packUnpack_def)
qed

text \<open>
  The round trip of the test on the messages the constructors build, within those
  bounds.
\<close>

lemma packUnpack_round_trip:
  "length key < 65536 \<Longrightarrow>
     packUnpack (NewGetMessage tag key) = Some (None, None, NewGetMessage tag key)"
  "length key + 2 < 65536 \<Longrightarrow> length val + 8 < 65536 \<Longrightarrow>
     packUnpack (NewPutMessage tag key val ver) = Some (None, None, NewPutMessage tag key val ver)"
  "length text < 65536 \<Longrightarrow>
     packUnpack (NewErrorMessage tag text) = Some (None, None, NewErrorMessage tag text)"
  "length password < 65536 \<Longrightarrow>
     packUnpack (NewAuthMessage tag password) = Some (None, None, NewAuthMessage tag password)"
proof -
  let ?d = "\<lparr>dec_buf = [], dec_off = 0, dec_err = None\<rparr>"
  let ?z = "\<lparr>msg_kind = 0, msg_tag = 0, msg_key = [], msg_value = [], msg_version = 0\<rparr>"
  show "packUnpack (NewGetMessage tag key) = Some (None, None, NewGetMessage tag key)"
    if "length key < 65536"
    using Decode_Get [OF that, of ?d ?z tag "[]"]
    by (subst packUnpack_Encode) (auto simp add: NewGetMessage_def)
  show "packUnpack (NewPutMessage tag key val ver) = Some (None, None, NewPutMessage tag key val ver)"
    if "length key + 2 < 65536" and "length val + 8 < 65536"
    using Decode_Put [OF that, of ?d ?z tag ver "[]"]
    by (subst packUnpack_Encode) (auto simp add: NewPutMessage_def)
  show "packUnpack (NewErrorMessage tag text) = Some (None, None, NewErrorMessage tag text)"
    if "length text < 65536"
    using Decode_Error [OF that, of ?d ?z tag "[]"]
    by (subst packUnpack_Encode) (auto simp add: NewErrorMessage_def)
  show "packUnpack (NewAuthMessage tag password) = Some (None, None, NewAuthMessage tag password)"
    if "length password < 65536"
    using Decode_Auth [OF that, of ?d ?z tag "[]"]
    by (subst packUnpack_Encode) (auto simp add: NewAuthMessage_def)
qed

text \<open>
  Claim C5 at a PUT message with a key of 65534 bytes. The encoder writes it; the
  decoder reads the key's length, asks the reader for \<open>n + 2\<close> bytes, which is 0 in
  16-bit arithmetic, and then slices 65534 bytes out of its buffer of 5: it panics.
\<close>

theorem packUnpack_long_key:
  "packUnpack (NewPutMessage 7 (replicate 65534 CHR ''k'') ''v'' 1) = None"
proof -
  let ?m = "NewPutMessage 7 (replicate 65534 CHR ''k'') ''v'' 1"
  let ?b = "bits_Put8 KindPut @ bits_Put16 7 @ bits_Put16 65534"
  let ?d = "\<lparr>dec_buf = ?b, dec_off = 3, dec_err = None\<rparr>"
  have k: "msg_kind ?m = KindGet \<or> msg_kind ?m = KindPut \<or> msg_kind ?m = KindError \<or>
           msg_kind ?m = KindAuth"
    by (simp add: NewPutMessage_def)
  have g16: "Decoder_get16 ?d = Some (65534, ?d\<lparr>dec_off := 5\<rparr>)"
    using Decoder_get16_at [of ?d "bits_Put8 KindPut @ bits_Put16 7" 65534 "[]"]
    by (simp add: length_bits_Put8 length_bits_Put16)
  have rd: "Decoder_read Buffer_Reader (?d\<lparr>dec_off := 5\<rparr>) (65534 + 2) r
              = Some (?d\<lparr>dec_off := 0\<rparr>, r)" for r
    using Decoder_read_Buffer_Reader [of "?d\<lparr>dec_off := 5\<rparr>" "65534 + 2" r]
    by (simp add: length_bits_Put8 length_bits_Put16)
  have gs: "Decoder_gets (?d\<lparr>dec_off := 0\<rparr>) 65534 = None"
    by (simp add: Decoder_gets_def length_bits_Put8 length_bits_Put16)
  have body: "Decode_body Buffer_Reader ?d m r = None" if "msg_kind m = KindPut" for m r
  proof -
    from that have kk: "(msg_kind m = KindGet) = False" "(msg_kind m = KindPut) = True"
      by (simp_all add: KindPut_def KindGet_def)
    show ?thesis
      by (simp only: Decode_body_def kk if_True if_False g16 rd gs bind.bind_lunit
          bind.bind_lzero prod.case)
  qed
  show ?thesis
    unfolding packUnpack_Encode [OF k] wire_layout_Put append_assoc Decode_header
    by (simp add: body)
qed

end
